theory Spec2Isabelle
  imports Complex_Main
begin

section \<open>Entities\<close>

text \<open>
  The persistent entities of the quiz server, one record per TypeORM entity class.
  Only columns are kept (relation properties such as \<open>Answer.participant\<close> are loaded by
  joins over the id columns and are modelled as queries, see \<open>options_of\<close> and
  \<open>questions_of\<close>); the creation timestamps \<open>createdAt\<close>, \<open>joinedAt\<close> and
  \<open>answeredAt\<close> are written by the database and read by none of the modelled
  operations. Every record field carries its entity's name as a prefix because HOL
  record fields share one name space (\<open>quiz_id\<close> is \<open>Quiz.id\<close>).
\<close>

datatype QuizStatus = CREATED | STARTED | FINISHED

datatype Team = TEAM_1 | TEAM_2

record Quiz =
  quiz_id :: string
  quiz_title :: string
  quiz_pin :: string
  quiz_status :: QuizStatus
  quiz_creatorId :: string

record Question =
  question_id :: string
  question_text :: string
  question_timeSeconds :: int
  question_correctAnswerId :: "string option"
  question_quizId :: string
  question_order :: int

record AnswerOption =
  option_id :: string
  option_text :: string
  option_order :: int
  option_questionId :: string

record Participant =
  participant_id :: string
  participant_name :: string
  participant_team :: Team
  participant_quizId :: string
  participant_pin :: string

record Answer =
  answer_id :: string
  answer_participantId :: string
  answer_questionId :: string
  answer_selectedOptionId :: string
  answer_isCorrect :: bool
  answer_responseTimeMs :: "int option"

section \<open>Score engine (tug-of-war.service.ts)\<close>

text \<open>
  JavaScript numbers are modelled as reals (exact arithmetic).
  \<open>Math.round\<close> rounds half up, \<open>Math.sign\<close> is \<open>sgn\<close>, and
  \<open>Math.pow(x, 0.7)\<close> is \<open>x powr 0.7\<close>, which agrees with it for \<open>x \<ge> 0\<close>.
\<close>

record TugStatus =
  position :: real
  team1Score :: real
  team2Score :: real
  hasAnswers :: bool

definition Math_round :: "real \<Rightarrow> real" where
  "Math_round x = of_int \<lfloor>x + 1 / 2\<rfloor>"

definition calculateTeamScore :: "real \<Rightarrow> real \<Rightarrow> real" where
  "calculateTeamScore correctAnswers averageSpeed =
     (let correctAnswersScore = correctAnswers * 50;
          speedScore = averageSpeed * 10
      in Math_round (correctAnswersScore + speedScore))"

text \<open>\<open>a.responseTimeMs || 0\<close>: a null column counts as 0.\<close>

definition responseTimeMs_or_0 :: "Answer \<Rightarrow> real" where
  "responseTimeMs_or_0 a =
     (case answer_responseTimeMs a of None \<Rightarrow> 0 | Some t \<Rightarrow> of_int t)"

definition calculateAverageSpeed :: "Answer list \<Rightarrow> real \<Rightarrow> real" where
  "calculateAverageSpeed answers maxTimeMs =
     (if length answers = 0 then 0
      else
        let totalTimeSpent = foldl (\<lambda>sum a. sum + responseTimeMs_or_0 a) 0 answers;
            averageTimeSpentMs = totalTimeSpent / of_nat (length answers);
            maxTimeSeconds = maxTimeMs / 1000;
            averageTimeSpentSeconds = averageTimeSpentMs / 1000;
            speedScore = max 0 (maxTimeSeconds - averageTimeSpentSeconds)
        in Math_round (speedScore * 100) / 100)"

definition calculateCorrectAnswers :: "Answer list \<Rightarrow> real" where
  "calculateCorrectAnswers answers = of_nat (length (filter answer_isCorrect answers))"

definition updateTugPosition :: "real \<Rightarrow> real \<Rightarrow> bool \<Rightarrow> TugStatus" where
  "updateTugPosition t1 t2 has =
     (let totalScore = t1 + t2 in
      if \<not> has \<or> totalScore = 0 then
        \<lparr>position = 0, team1Score = 0, team2Score = 0, hasAnswers = False\<rparr>
      else
        let scoreDiff = t1 - t2;
            minScore = min t1 t2;
            maxScore = max t1 t2;
            rawPosition =
              (if minScore = 0 \<and> maxScore > 0 then sgn scoreDiff * 75
               else
                 let ratio = maxScore / totalScore;
                     normalizedRatio = min 1 ((ratio - 1 / 2) / (1 / 4))
                 in sgn scoreDiff * (normalizedRatio powr (7 / 10)) * 100);
            clampedPosition = max (- 100) (min 100 rawPosition)
        in \<lparr>position = Math_round (clampedPosition * 100) / 100,
            team1Score = t1, team2Score = t2, hasAnswers = True\<rparr>)"

section \<open>Service state\<close>

text \<open>
  The state the services work on: the five tables read and written through the
  repositories (rows in insertion order) and the in-memory cache
  \<open>TugOfWarService.questionTimeCache\<close> (quizId to average time limit in seconds).
\<close>

record State =
  quizzes :: "Quiz list"
  questions :: "Question list"
  answerOptions :: "AnswerOption list"
  participants :: "Participant list"
  answers :: "Answer list"
  questionTimeCache :: "string \<rightharpoonup> real"

text \<open>
  The exceptions of quizzes.service.ts. The messages are Russian text in the source; each
  throw site gets a constructor of \<open>message\<close>, named after what the text says.
  \<open>QueryFailedError\<close> is what a repository call throws when the database refuses the
  statement; the one modelled cause is an integer that does not fit its column.
\<close>

datatype message =
    QuizNotFound
  | QuizWithPinNotFound
  | NotCreator
  | AlreadyStartedOrFinished
  | QuizNotFoundAfterSave
  | GameNotStarted
  | QuestionNotFound
  | ParticipantNotFound
  | AlreadyAnswered
  | SelectedOptionNotFound
  | CorrectAnswerNotSet
  | IntegerOutOfRange

datatype error =
    NotFoundException message
  | BadRequestException message
  | ForbiddenException message
  | QueryFailedError message

text \<open>
  \<open>repository.save(entity)\<close> for an entity that has its primary key: the row with that
  key is replaced, and the entity is inserted when no row has it.
\<close>

fun save_row :: "('a \<Rightarrow> string) \<Rightarrow> 'a \<Rightarrow> 'a list \<Rightarrow> 'a list" where
  "save_row key r [] = [r]"
| "save_row key r (x # xs) = (if key x = key r then r # xs else x # save_row key r xs)"

definition findQuizById :: "State \<Rightarrow> string \<Rightarrow> Quiz option" where
  "findQuizById s quizId = find (\<lambda>q. quiz_id q = quizId) (quizzes s)"

definition findQuizByPin :: "State \<Rightarrow> string \<Rightarrow> Quiz option" where
  "findQuizByPin s pin = find (\<lambda>q. quiz_pin q = pin) (quizzes s)"

text \<open>The relation \<open>question.options\<close>, and \<open>quiz.questions\<close> ordered by \<open>order ASC\<close>.\<close>

definition options_of :: "State \<Rightarrow> Question \<Rightarrow> AnswerOption list" where
  "options_of s q = filter (\<lambda>opt. option_questionId opt = question_id q) (answerOptions s)"

definition questions_of :: "State \<Rightarrow> Quiz \<Rightarrow> Question list" where
  "questions_of s quiz =
     sort_key question_order (filter (\<lambda>q. question_quizId q = quiz_id quiz) (questions s))"

text \<open>\<open>q.timeSeconds || 30\<close>: a time limit of 0 counts as 30.\<close>

definition timeSeconds_or_30 :: "Question \<Rightarrow> real" where
  "timeSeconds_or_30 q = (if question_timeSeconds q = 0 then 30 else of_int (question_timeSeconds q))"

definition getAverageQuestionTime :: "State \<Rightarrow> string \<Rightarrow> real \<times> State" where
  "getAverageQuestionTime s quizId =
     (case questionTimeCache s quizId of
        Some t \<Rightarrow> (t, s)
      | None \<Rightarrow>
          let qs = filter (\<lambda>q. question_quizId q = quizId) (questions s);
              averageTimeSeconds =
                (if length qs > 0
                 then foldl (\<lambda>sum q. sum + timeSeconds_or_30 q) 0 qs / of_nat (length qs)
                 else 30)
          in (averageTimeSeconds,
              s\<lparr>questionTimeCache := (questionTimeCache s)(quizId \<mapsto> averageTimeSeconds)\<rparr>))"

definition calculateTugPosition :: "State \<Rightarrow> string \<Rightarrow> TugStatus \<times> State" where
  "calculateTugPosition s quizId =
     (let ps = filter (\<lambda>p. participant_quizId p = quizId) (participants s) in
      if length ps = 0 then
        (\<lparr>position = 0, team1Score = 0, team2Score = 0, hasAnswers = False\<rparr>, s)
      else
        let (averageTimeSeconds, s') = getAverageQuestionTime s quizId;
            maxTimeMs = averageTimeSeconds * 1000;
            participantIds = map participant_id ps;
            allAnswers = filter (\<lambda>a. answer_participantId a \<in> set participantIds) (answers s');
            team1Members = filter (\<lambda>p. participant_team p = TEAM_1) ps;
            team2Members = filter (\<lambda>p. participant_team p = TEAM_2) ps;
            team1Answers =
              filter (\<lambda>a. list_ex (\<lambda>m. participant_id m = answer_participantId a) team1Members)
                allAnswers;
            team2Answers =
              filter (\<lambda>a. list_ex (\<lambda>m. participant_id m = answer_participantId a) team2Members)
                allAnswers;
            has = (length allAnswers > 0);
            team1CorrectAnswers = calculateCorrectAnswers team1Answers;
            team1AverageSpeed = calculateAverageSpeed team1Answers maxTimeMs;
            t1 = calculateTeamScore team1CorrectAnswers team1AverageSpeed;
            team2CorrectAnswers = calculateCorrectAnswers team2Answers;
            team2AverageSpeed = calculateAverageSpeed team2Answers maxTimeMs;
            t2 = calculateTeamScore team2CorrectAnswers team2AverageSpeed
        in (updateTugPosition t1 t2 has, s'))"

section \<open>Quiz service (quizzes.service.ts)\<close>

text \<open>
  An operation that writes takes the state and returns its result together with the state
  it leaves: \<open>Inl\<close> an exception, \<open>Inr\<close> the returned value. The state is returned on
  both branches, so that what a failed call has written is part of the model. An
  operation that only reads returns its result.
\<close>

definition getQuizByPin :: "State \<Rightarrow> string \<Rightarrow> error + Quiz" where
  "getQuizByPin s pin =
     (case findQuizByPin s pin of
        None \<Rightarrow> Inl (NotFoundException QuizWithPinNotFound)
      | Some quiz \<Rightarrow> Inr quiz)"

text \<open>
  \<open>startQuiz\<close> awaits \<open>findOne\<close> and \<open>save\<close> one after the other, with no transaction and
  no version check. \<open>startQuiz_read\<close> is the first: the load and the three checks.
  \<open>startQuiz_write\<close> is the rest: it sets the status on the quiz object that was loaded,
  saves that object and loads the quiz again for the caller. \<open>startQuiz\<close> is one part after
  the other, with nothing in between.
\<close>

definition startQuiz_read :: "State \<Rightarrow> string \<Rightarrow> string \<Rightarrow> error + Quiz" where
  "startQuiz_read s quizId userId =
     (case findQuizById s quizId of
        None \<Rightarrow> Inl (NotFoundException QuizNotFound)
      | Some quiz \<Rightarrow>
          if quiz_creatorId quiz \<noteq> userId then Inl (ForbiddenException NotCreator)
          else if quiz_status quiz \<noteq> CREATED then
            Inl (BadRequestException AlreadyStartedOrFinished)
          else Inr quiz)"

definition startQuiz_write :: "State \<Rightarrow> Quiz \<Rightarrow> (error + Quiz) \<times> State" where
  "startQuiz_write s quiz =
     (let savedQuiz = quiz\<lparr>quiz_status := STARTED\<rparr>;
          s' = s\<lparr>quizzes := save_row quiz_id savedQuiz (quizzes s)\<rparr>
      in (case findQuizById s' (quiz_id savedQuiz) of
            None \<Rightarrow> (Inl (NotFoundException QuizNotFoundAfterSave), s')
          | Some quizWithQuestions \<Rightarrow> (Inr quizWithQuestions, s')))"

definition startQuiz :: "State \<Rightarrow> string \<Rightarrow> string \<Rightarrow> (error + Quiz) \<times> State" where
  "startQuiz s quizId userId =
     (case startQuiz_read s quizId userId of
        Inl e \<Rightarrow> (Inl e, s)
      | Inr quiz \<Rightarrow> startQuiz_write s quiz)"

definition finishQuiz :: "State \<Rightarrow> string \<Rightarrow> string \<Rightarrow> (error + Quiz) \<times> State" where
  "finishQuiz s quizId userId =
     (case findQuizById s quizId of
        None \<Rightarrow> (Inl (NotFoundException QuizNotFound), s)
      | Some quiz \<Rightarrow>
          if quiz_creatorId quiz \<noteq> userId then (Inl (ForbiddenException NotCreator), s)
          else
            let savedQuiz = quiz\<lparr>quiz_status := FINISHED\<rparr>
            in (Inr savedQuiz,
                s\<lparr>quizzes := save_row quiz_id savedQuiz (quizzes s),
                  questionTimeCache := (questionTimeCache s)(quizId := None)\<rparr>))"

definition getTugPosition :: "State \<Rightarrow> string \<Rightarrow> (error + TugStatus) \<times> State" where
  "getTugPosition s quizId =
     (case findQuizById s quizId of
        None \<Rightarrow> (Inl (NotFoundException QuizNotFound), s)
      | Some quiz \<Rightarrow> (let (tug, s') = calculateTugPosition s quizId in (Inr tug, s')))"

subsection \<open>submitAnswer\<close>

record SubmitAnswerDto =
  dto_participantId :: string
  dto_selectedOptionId :: string
  dto_responseTimeMs :: int

text \<open>The returned \<open>Answer & { tugStatus, shouldAutoFinish, gameFinished }\<close>.\<close>

record SubmitAnswerResult =
  savedAnswer :: Answer
  tugStatus :: TugStatus
  shouldAutoFinish :: bool
  gameFinished :: bool

text \<open>\<open>!question.correctAnswerId\<close>: null or the empty string.\<close>

definition correctAnswerId_unset :: "Question \<Rightarrow> bool" where
  "correctAnswerId_unset q =
     (case question_correctAnswerId q of None \<Rightarrow> True | Some c \<Rightarrow> c = [])"

text \<open>
  The column \<open>responseTimeMs\<close> is a 32-bit integer (\<open>type: 'int'\<close>): the insert of a value
  outside its range throws and stores nothing.
\<close>

definition int4 :: "int \<Rightarrow> bool" where
  "int4 n = (- 2147483648 \<le> n \<and> n \<le> 2147483647)"

text \<open>
  \<open>submitAnswer\<close> awaits each repository call. Its body is modelled in the two parts
  that the write \<open>answerRepository.save\<close> separates: \<open>submitAnswer_read\<close> is everything up to
  \<open>answerRepository.create\<close> (four reads and the checks, no write; it yields the loaded
  quiz and the new entity, whose id is still unset), \<open>submitAnswer_write\<close> is the rest
  (the insert, for which \<open>generateId\<close> draws \<open>uuid\<close>, the recomputed position and the
  conditional finish, which saves the quiz object loaded by the first part).
  \<open>submitAnswer\<close> is one part after the other.
\<close>

definition submitAnswer_read ::
  "State \<Rightarrow> string \<Rightarrow> string \<Rightarrow> string \<Rightarrow> SubmitAnswerDto \<Rightarrow> error + Quiz \<times> Answer" where
  "submitAnswer_read s pin questionId participantId dto =
     (case findQuizByPin s pin of
        None \<Rightarrow> Inl (NotFoundException QuizNotFound)
      | Some quiz \<Rightarrow>
          if quiz_status quiz \<noteq> STARTED then Inl (BadRequestException GameNotStarted)
          else
            (case find (\<lambda>q. question_id q = questionId) (questions s) of
               None \<Rightarrow> Inl (NotFoundException QuestionNotFound)
             | Some question \<Rightarrow>
                 (case find (\<lambda>p. participant_id p = participantId) (participants s) of
                    None \<Rightarrow> Inl (NotFoundException ParticipantNotFound)
                  | Some participant \<Rightarrow>
                      if participant_pin participant \<noteq> pin
                      then Inl (NotFoundException ParticipantNotFound)
                      else
                        (case find (\<lambda>a. answer_participantId a = participantId \<and>
                                         answer_questionId a = questionId) (answers s) of
                           Some existingAnswer \<Rightarrow> Inl (BadRequestException AlreadyAnswered)
                         | None \<Rightarrow>
                             (case find (\<lambda>opt. option_id opt = dto_selectedOptionId dto)
                                     (options_of s question) of
                                None \<Rightarrow> Inl (BadRequestException SelectedOptionNotFound)
                              | Some selectedOption \<Rightarrow>
                                  if correctAnswerId_unset question
                                  then Inl (BadRequestException CorrectAnswerNotSet)
                                  else
                                    let isCorrect =
                                          (question_correctAnswerId question =
                                             Some (dto_selectedOptionId dto))
                                    in Inr (quiz,
                                            \<lparr>answer_id = [],
                                             answer_participantId = participantId,
                                             answer_questionId = questionId,
                                             answer_selectedOptionId = dto_selectedOptionId dto,
                                             answer_isCorrect = isCorrect,
                                             answer_responseTimeMs =
                                               Some (dto_responseTimeMs dto)\<rparr>))))))"

definition submitAnswer_write ::
  "State \<Rightarrow> string \<Rightarrow> Quiz \<times> Answer \<Rightarrow> (error + SubmitAnswerResult) \<times> State" where
  "submitAnswer_write s uuid loaded =
     (let (quiz, answer) = loaded;
          saved = (if answer_id answer = [] then answer\<lparr>answer_id := uuid\<rparr> else answer)
      in
      if (case answer_responseTimeMs saved of None \<Rightarrow> False | Some ms \<Rightarrow> \<not> int4 ms)
      then (Inl (QueryFailedError IntegerOutOfRange), s)
      else
        let s1 = s\<lparr>answers := answers s @ [saved]\<rparr>;
            (tug, s2) = calculateTugPosition s1 (quiz_id quiz);
            auto = (\<bar>position tug\<bar> \<ge> 100 \<and> hasAnswers tug);
            s3 = (if auto \<and> quiz_status quiz = STARTED
                  then s2\<lparr>quizzes := save_row quiz_id (quiz\<lparr>quiz_status := FINISHED\<rparr>) (quizzes s2)\<rparr>
                  else s2)
        in (Inr \<lparr>savedAnswer = saved, tugStatus = tug, shouldAutoFinish = auto,
                  gameFinished = auto\<rparr>,
            s3))"

definition submitAnswer ::
  "State \<Rightarrow> string \<Rightarrow> string \<Rightarrow> string \<Rightarrow> string \<Rightarrow> SubmitAnswerDto
     \<Rightarrow> (error + SubmitAnswerResult) \<times> State" where
  "submitAnswer s uuid pin questionId participantId dto =
     (case submitAnswer_read s pin questionId participantId dto of
        Inl e \<Rightarrow> (Inl e, s)
      | Inr loaded \<Rightarrow> submitAnswer_write s uuid loaded)"

subsection \<open>Teacher queries\<close>

definition determineWinner :: "TugStatus \<Rightarrow> Team option" where
  "determineWinner tug =
     (if position tug > 0 then Some TEAM_1
      else if position tug < 0 then Some TEAM_2
      else None)"

text \<open>
  What \<open>getResults\<close> returns, without the statistics per participant and per team (pure
  functions of the tables, read by none of the modelled operations).
\<close>

record Results =
  results_quiz :: Quiz
  results_winner :: "Team option"
  results_tugStatus :: TugStatus

definition getResults :: "State \<Rightarrow> string \<Rightarrow> string \<Rightarrow> (error + Results) \<times> State" where
  "getResults s quizId userId =
     (case findQuizById s quizId of
        None \<Rightarrow> (Inl (NotFoundException QuizNotFound), s)
      | Some quiz \<Rightarrow>
          if quiz_creatorId quiz \<noteq> userId then (Inl (ForbiddenException NotCreator), s)
          else
            let (tug, s') = calculateTugPosition s quizId
            in (Inr \<lparr>results_quiz = quiz, results_winner = determineWinner tug,
                     results_tugStatus = tug\<rparr>, s'))"

text \<open>\<open>getParticipantsByPin\<close> returns the members of team 1 and of team 2.\<close>

definition getParticipantsByPin ::
  "State \<Rightarrow> string \<Rightarrow> string \<Rightarrow> error + Participant list \<times> Participant list" where
  "getParticipantsByPin s pin userId =
     (case findQuizByPin s pin of
        None \<Rightarrow> Inl (NotFoundException QuizNotFound)
      | Some quiz \<Rightarrow>
          if quiz_creatorId quiz \<noteq> userId then Inl (ForbiddenException NotCreator)
          else
            let ps = filter (\<lambda>p. participant_pin p = pin) (participants s)
            in Inr (filter (\<lambda>p. participant_team p = TEAM_1) ps,
                    filter (\<lambda>p. participant_team p = TEAM_2) ps))"

subsection \<open>The order of the statuses\<close>

text \<open>
  The lifecycle order created, started, finished as a rank, and what it means for a stored
  quiz to have moved forward: the same quiz, with a status that is not earlier.
\<close>

definition status_rank :: "QuizStatus \<Rightarrow> nat" where
  "status_rank st = (case st of CREATED \<Rightarrow> 0 | STARTED \<Rightarrow> 1 | FINISHED \<Rightarrow> 2)"

definition forward :: "Quiz \<Rightarrow> Quiz \<Rightarrow> bool" where
  "forward q q' = (quiz_id q' = quiz_id q \<and> status_rank (quiz_status q) \<le> status_rank (quiz_status q'))"

section \<open>Realtime gateway (quiz.gateway.ts)\<close>

text \<open>
  A connection is a socket with its id and its \<open>client.data\<close> tags. \<open>handleConnection\<close>
  sets every tag to null.
\<close>

datatype Role = Teacher | Student

record Socket =
  socket_id :: string
  data_role :: "Role option"
  data_userId :: "string option"
  data_pin :: "string option"
  data_participantId :: "string option"

text \<open>
  The texts sent in \<open>error\<close> events and replies: the message of a caught service
  exception, or one of the gateway's own texts (Russian in the source, one constructor
  per text).
\<close>

datatype ErrorMessage =
    ServiceMessage message
  | NotCreatorOfThisGame
  | WrongAccessRights
  | OnlyTeacherCanStartQuiz
  | JoinQuizFirst
  | OnlyCreatorTeacherCanStartQuestion
  | OnlyCreatorCanStartQuestions
  | QuizHasNoQuestions
  | GameAlreadyFinished
  | GameNotStartedStatus QuizStatus
  | InvalidQuestionIndex
  | PreviousQuestionTimeNotElapsed int
  | OnlyTeacherCanFinishQuestion
  | OnlyTeacherCanFinishQuiz
  | OnlyTeacherCanGetResults
  | OnlyTeacherCanGetParticipants

fun exception_message :: "error \<Rightarrow> message" where
  "exception_message (NotFoundException m) = m"
| "exception_message (BadRequestException m) = m"
| "exception_message (ForbiddenException m) = m"
| "exception_message (QueryFailedError m) = m"

text \<open>
  The events the gateway emits, with their payload fields in the source's order, and
  where each goes: to one socket, or to the room \<open>quiz-{pin}\<close>.
\<close>

datatype Event =
    ErrorEvent ErrorMessage
  | ParticipantsUpdate string "Participant list" "Participant list"
  | QuizState Quiz int
  | TugPositionUpdate string TugStatus
  | GameUpdate string string QuizStatus "int option"
  | StartQuestion string int string int int
  | QuestionStarted string int int
  | QuestionFinished string int
  | QuizResults Results
  | ResultsEvent Results

datatype Target = ToClient string | ToRoom string

text \<open>
  An entry of \<open>questionTimers\<close>, and a callback pending in the runtime's timer queue:
  \<open>setTimeout\<close> is only ever called with a call of \<open>autoAdvanceQuestion\<close>, so a pending
  callback is its delay and that call's arguments. Timer handles are numbered.
\<close>

record Timer =
  timer_questionIndex :: int
  timer_startTime :: int
  timer_timeSeconds :: int
  timer_timerId :: nat
  timer_pin :: string

record Timeout =
  timeout_delayMs :: int
  timeout_quizId :: string
  timeout_pin :: string
  timeout_questionIndex :: int
  timeout_userId :: string

record Gateway =
  svc :: State
  pinRooms :: "string \<Rightarrow> string set"
  questionStartTimes :: "string \<rightharpoonup> (int \<rightharpoonup> int)"
  questionTimers :: "string \<rightharpoonup> Timer"
  timeouts :: "nat \<rightharpoonup> Timeout"
  nextTimeoutId :: nat
  clientLastActivity :: "string \<rightharpoonup> int"
  emitted :: "(Target \<times> Event) list"

record Reply =
  success :: bool
  reply_error :: "ErrorMessage option"

definition handleConnection :: "Gateway \<Rightarrow> int \<Rightarrow> string \<Rightarrow> Socket \<times> Gateway" where
  "handleConnection g now sid =
     (\<lparr>socket_id = sid, data_role = None, data_userId = None, data_pin = None,
       data_participantId = None\<rparr>,
      g\<lparr>clientLastActivity := (clientLastActivity g)(sid \<mapsto> now)\<rparr>)"

definition emit :: "Target \<Rightarrow> Event \<Rightarrow> Gateway \<Rightarrow> Gateway" where
  "emit t e g = g\<lparr>emitted := emitted g @ [(t, e)]\<rparr>"

definition emitGameUpdate ::
  "string \<Rightarrow> string \<Rightarrow> QuizStatus \<Rightarrow> int option \<Rightarrow> Gateway \<Rightarrow> Gateway" where
  "emitGameUpdate pin gameId status currentQuestionIndex g =
     emit (ToRoom pin)
       (GameUpdate gameId pin status
          (if status = FINISHED then currentQuestionIndex
           else Some (case currentQuestionIndex of None \<Rightarrow> 0 | Some i \<Rightarrow> i))) g"

text \<open>\<open>if (timer && timer.timerId) clearTimeout(timer.timerId)\<close> for the quiz's timer.\<close>

definition clearQuestionTimer :: "string \<Rightarrow> Gateway \<Rightarrow> Gateway" where
  "clearQuestionTimer quizId g =
     (case questionTimers g quizId of
        None \<Rightarrow> g
      | Some timer \<Rightarrow> g\<lparr>timeouts := (timeouts g)(timer_timerId timer := None)\<rparr>)"

definition deleteQuestionTimer :: "string \<Rightarrow> Gateway \<Rightarrow> Gateway" where
  "deleteQuestionTimer quizId g = g\<lparr>questionTimers := (questionTimers g)(quizId := None)\<rparr>"

definition setTimeout :: "Timeout \<Rightarrow> Gateway \<Rightarrow> nat \<times> Gateway" where
  "setTimeout cb g =
     (nextTimeoutId g,
      g\<lparr>timeouts := (timeouts g)(nextTimeoutId g \<mapsto> cb),
        nextTimeoutId := Suc (nextTimeoutId g)\<rparr>)"

definition startTimes_of :: "Gateway \<Rightarrow> string \<Rightarrow> (int \<rightharpoonup> int)" where
  "startTimes_of g quizId =
     (case questionStartTimes g quizId of None \<Rightarrow> Map.empty | Some m \<Rightarrow> m)"

definition recordStartTime :: "string \<Rightarrow> int \<Rightarrow> int \<Rightarrow> Gateway \<Rightarrow> Gateway" where
  "recordStartTime quizId questionIndex now g =
     g\<lparr>questionStartTimes :=
         (questionStartTimes g)(quizId \<mapsto> (startTimes_of g quizId)(questionIndex \<mapsto> now))\<rparr>"

text \<open>A JavaScript string that may be undefined is truthy when it is a non-empty string.\<close>

definition truthy :: "string option \<Rightarrow> bool" where
  "truthy u = (case u of None \<Rightarrow> False | Some x \<Rightarrow> x \<noteq> [])"

definition reject :: "ErrorMessage \<Rightarrow> Socket \<Rightarrow> Gateway \<Rightarrow> Reply \<times> Socket \<times> Gateway" where
  "reject m client g =
     (\<lparr>success = False, reply_error = None\<rparr>, client,
      emit (ToClient (socket_id client)) (ErrorEvent m) g)"

text \<open>The \<open>catch\<close> block of a handler: the exception's message goes to the client and into the reply.\<close>

definition caught :: "error \<Rightarrow> Socket \<Rightarrow> Gateway \<Rightarrow> Reply \<times> Socket \<times> Gateway" where
  "caught e client g =
     (\<lparr>success = False, reply_error = Some (ServiceMessage (exception_message e))\<rparr>, client,
      emit (ToClient (socket_id client)) (ErrorEvent (ServiceMessage (exception_message e))) g)"

definition accepted :: Reply where
  "accepted = \<lparr>success = True, reply_error = None\<rparr>"

subsection \<open>join-quiz\<close>

record JoinData =
  join_pin :: string
  join_role :: Role
  join_userId :: "string option"
  join_participantId :: "string option"

text \<open>
  The connection enters the room and its tags are written before the teacher's user id is
  compared with the quiz's creator; the early return on a mismatch leaves both in place.
  Where the participants are listed the user id is the creator's.
\<close>

definition handleJoinQuiz ::
  "Gateway \<Rightarrow> int \<Rightarrow> Socket \<Rightarrow> JoinData \<Rightarrow> Reply \<times> Socket \<times> Gateway" where
  "handleJoinQuiz g now client d =
     (let pin = join_pin d; role = join_role d; userId = join_userId d in
      case getQuizByPin (svc g) pin of
        Inl e \<Rightarrow> caught e client g
      | Inr quiz \<Rightarrow>
          let g1 = g\<lparr>pinRooms := (pinRooms g)(pin := insert (socket_id client) (pinRooms g pin)),
                     clientLastActivity := (clientLastActivity g)(socket_id client \<mapsto> now)\<rparr>;
              client1 = client\<lparr>data_pin := Some pin, data_role := Some role,
                               data_userId := userId,
                               data_participantId := join_participantId d\<rparr>
          in
          if role = Teacher \<and> truthy userId \<and> Some (quiz_creatorId quiz) \<noteq> userId then
            (\<lparr>success = False, reply_error = Some WrongAccessRights\<rparr>, client1,
             emit (ToClient (socket_id client)) (ErrorEvent NotCreatorOfThisGame) g1)
          else
            (case (if role = Teacher \<and> truthy userId
                   then (case getParticipantsByPin (svc g1) pin (quiz_creatorId quiz) of
                           Inl e \<Rightarrow> Inl e
                         | Inr (team1, team2) \<Rightarrow>
                             Inr (emit (ToClient (socket_id client))
                                    (ParticipantsUpdate pin team1 team2) g1))
                   else Inr g1) of
               Inl e \<Rightarrow> caught e client1 g1
             | Inr g2 \<Rightarrow>
                 let g3 = emit (ToClient (socket_id client)) (QuizState quiz 0) g2 in
                 if quiz_status quiz = STARTED \<or> quiz_status quiz = FINISHED then
                   (case getTugPosition (svc g3) (quiz_id quiz) of
                      (Inl e, s') \<Rightarrow> caught e client1 (g3\<lparr>svc := s'\<rparr>)
                    | (Inr tug, s') \<Rightarrow>
                        (accepted, client1,
                         emit (ToClient (socket_id client)) (TugPositionUpdate pin tug)
                           (g3\<lparr>svc := s'\<rparr>)))
                 else (accepted, client1, g3)))"

subsection \<open>start-quiz\<close>

definition handleStartQuiz ::
  "Gateway \<Rightarrow> Socket \<Rightarrow> string \<Rightarrow> string \<Rightarrow> string \<Rightarrow> Reply \<times> Socket \<times> Gateway" where
  "handleStartQuiz g client pin quizId userId =
     (if data_role client \<noteq> Some Teacher then reject OnlyTeacherCanStartQuiz client g
      else
        (case startQuiz (svc g) quizId userId of
           (Inl e, s') \<Rightarrow> caught e client (g\<lparr>svc := s'\<rparr>)
         | (Inr quiz, s') \<Rightarrow>
             (accepted, client,
              emitGameUpdate pin (quiz_id quiz) (quiz_status quiz) (Some 0) (g\<lparr>svc := s'\<rparr>))))"

subsection \<open>start-question\<close>




subsection \<open>The auto-advance timer\<close>

text \<open>
  \<open>autoAdvanceQuestion\<close> returns nothing and catches every exception; the \<open>catch\<close> block
  deletes the quiz's entry of \<open>questionTimers\<close>. \<open>quiz.questions[nextIndex]\<close> with a
  negative index is undefined, and reading its id throws into that block.
\<close>

definition autoAdvanceQuestion ::
  "Gateway \<Rightarrow> int \<Rightarrow> string \<Rightarrow> string \<Rightarrow> int \<Rightarrow> string \<Rightarrow> Gateway" where
  "autoAdvanceQuestion g now quizId pin currentQuestionIndex userId =
     (case getQuizByPin (svc g) pin of
        Inl e \<Rightarrow> deleteQuestionTimer quizId g
      | Inr quiz \<Rightarrow>
          if quiz_status quiz \<noteq> STARTED then
            deleteQuestionTimer quizId (clearQuestionTimer quizId g)
          else
            let nextIndex = currentQuestionIndex + 1;
                qs = questions_of (svc g) quiz;
                totalQuestions = int (length qs)
            in
            if nextIndex \<ge> totalQuestions then
              let g1 = deleteQuestionTimer quizId (clearQuestionTimer quizId g) in
              (case finishQuiz (svc g1) quizId userId of
                 (Inl e, s1) \<Rightarrow> deleteQuestionTimer quizId (g1\<lparr>svc := s1\<rparr>)
               | (Inr finished, s1) \<Rightarrow>
                   (case getTugPosition s1 quizId of
                      (Inl e, s2) \<Rightarrow> deleteQuestionTimer quizId (g1\<lparr>svc := s2\<rparr>)
                    | (Inr finalTugStatus, s2) \<Rightarrow>
                        let g2 = emitGameUpdate pin (quiz_id quiz) FINISHED
                                   (Some currentQuestionIndex) (g1\<lparr>svc := s2\<rparr>)
                        in
                        (case getResults (svc g2) (quiz_id quiz) userId of
                           (Inl e, s3) \<Rightarrow> g2\<lparr>svc := s3\<rparr>
                         | (Inr results, s3) \<Rightarrow>
                             emit (ToRoom pin) (QuizResults results) (g2\<lparr>svc := s3\<rparr>))))
            else if nextIndex < 0 then deleteQuestionTimer quizId g
            else
              let nextQuestion = qs ! nat nextIndex;
                  g1 = emit (ToRoom pin)
                         (StartQuestion pin nextIndex (question_id nextQuestion)
                            (question_timeSeconds nextQuestion) now) g;
                  g2 = emitGameUpdate pin (quiz_id quiz) (quiz_status quiz) (Some nextIndex) g1;
                  g3 = recordStartTime quizId nextIndex now g2;
                  nextTimeMs = question_timeSeconds nextQuestion * 1000 + 3000;
                  (nextTimerId, g4) =
                    setTimeout
                      \<lparr>timeout_delayMs = nextTimeMs, timeout_quizId = quizId, timeout_pin = pin,
                       timeout_questionIndex = nextIndex, timeout_userId = userId\<rparr> g3
              in g4\<lparr>questionTimers := (questionTimers g4)(quizId \<mapsto>
                      \<lparr>timer_questionIndex = nextIndex, timer_startTime = now,
                       timer_timeSeconds = question_timeSeconds nextQuestion,
                       timer_timerId = nextTimerId, timer_pin = pin\<rparr>)\<rparr>)"

text \<open>
  The runtime fires a pending callback: it leaves the timer queue and its call of
  \<open>autoAdvanceQuestion\<close> runs. A handle that was cleared fires nothing.
\<close>

definition fireTimeout :: "Gateway \<Rightarrow> int \<Rightarrow> nat \<Rightarrow> Gateway" where
  "fireTimeout g now timerId =
     (case timeouts g timerId of
        None \<Rightarrow> g
      | Some cb \<Rightarrow>
          autoAdvanceQuestion (g\<lparr>timeouts := (timeouts g)(timerId := None)\<rparr>) now
            (timeout_quizId cb) (timeout_pin cb) (timeout_questionIndex cb) (timeout_userId cb))"

subsection \<open>finish-question, finish-quiz, get-results, get-participants\<close>

text \<open>
  \<open>handleFinishQuestion\<close> passes the connection's \<open>userId\<close> tag, which may be undefined,
  to \<open>finishQuiz\<close>; no creator id equals undefined.
\<close>

definition finishQuiz_as :: "State \<Rightarrow> string \<Rightarrow> string option \<Rightarrow> (error + Quiz) \<times> State" where
  "finishQuiz_as s quizId userId =
     (case userId of
        Some u \<Rightarrow> finishQuiz s quizId u
      | None \<Rightarrow>
          (case findQuizById s quizId of
             None \<Rightarrow> (Inl (NotFoundException QuizNotFound), s)
           | Some quiz \<Rightarrow> (Inl (ForbiddenException NotCreator), s)))"

definition getResults_as :: "State \<Rightarrow> string \<Rightarrow> string option \<Rightarrow> (error + Results) \<times> State" where
  "getResults_as s quizId userId =
     (case userId of
        Some u \<Rightarrow> getResults s quizId u
      | None \<Rightarrow>
          (case findQuizById s quizId of
             None \<Rightarrow> (Inl (NotFoundException QuizNotFound), s)
           | Some quiz \<Rightarrow> (Inl (ForbiddenException NotCreator), s)))"

definition handleFinishQuestion ::
  "Gateway \<Rightarrow> int \<Rightarrow> Socket \<Rightarrow> string \<Rightarrow> string \<Rightarrow> Reply \<times> Socket \<times> Gateway" where
  "handleFinishQuestion g now client pin questionId =
     (let userId = data_userId client in
      if data_role client \<noteq> Some Teacher then reject OnlyTeacherCanFinishQuestion client g
      else
        (case getQuizByPin (svc g) pin of
           Inl e \<Rightarrow> caught e client g
         | Inr quiz \<Rightarrow>
             let timer = questionTimers g (quiz_id quiz);
                 qs = questions_of (svc g) quiz;
                 isLastQuestion =
                   (case timer of
                      None \<Rightarrow> False
                    | Some t \<Rightarrow> length qs > 0 \<and> timer_questionIndex t = int (length qs) - 1);
                 g1 = emit (ToRoom pin) (QuestionFinished questionId now) g
             in
             if isLastQuestion \<and> quiz_status quiz = STARTED then
               let g2 = deleteQuestionTimer (quiz_id quiz) (clearQuestionTimer (quiz_id quiz) g1) in
               (case finishQuiz_as (svc g2) (quiz_id quiz) userId of
                  (Inl e, s1) \<Rightarrow> caught e client (g2\<lparr>svc := s1\<rparr>)
                | (Inr finished, s1) \<Rightarrow>
                    (case getTugPosition s1 (quiz_id quiz) of
                       (Inl e, s2) \<Rightarrow> caught e client (g2\<lparr>svc := s2\<rparr>)
                     | (Inr finalTugStatus, s2) \<Rightarrow>
                         let g3 = emitGameUpdate pin (quiz_id quiz) FINISHED
                                    (map_option timer_questionIndex timer) (g2\<lparr>svc := s2\<rparr>)
                         in
                         (case getResults_as (svc g3) (quiz_id quiz) userId of
                            (Inl e, s3) \<Rightarrow> (accepted, client, g3\<lparr>svc := s3\<rparr>)
                          | (Inr results, s3) \<Rightarrow>
                              (accepted, client,
                               emit (ToRoom pin) (QuizResults results) (g3\<lparr>svc := s3\<rparr>)))))
             else (accepted, client, g1)))"

text \<open>
  \<open>finishQuiz\<close> loads the quiz without its questions, so without a timer entry the last
  question index sent is \<open>(undefined || 1) - 1 = 0\<close>.
\<close>

definition handleFinishQuiz ::
  "Gateway \<Rightarrow> Socket \<Rightarrow> string \<Rightarrow> string \<Rightarrow> string \<Rightarrow> Reply \<times> Socket \<times> Gateway" where
  "handleFinishQuiz g client pin quizId userId =
     (if data_role client \<noteq> Some Teacher then reject OnlyTeacherCanFinishQuiz client g
      else
        (case finishQuiz (svc g) quizId userId of
           (Inl e, s1) \<Rightarrow> caught e client (g\<lparr>svc := s1\<rparr>)
         | (Inr quiz, s1) \<Rightarrow>
             let g1 = g\<lparr>svc := s1\<rparr>;
                 currentTimer = questionTimers g1 (quiz_id quiz);
                 g2 = (case currentTimer of
                         None \<Rightarrow> g1
                       | Some t \<Rightarrow>
                           deleteQuestionTimer (quiz_id quiz) (clearQuestionTimer (quiz_id quiz) g1));
                 g3 = g2\<lparr>questionStartTimes := (questionStartTimes g2)(quiz_id quiz := None)\<rparr>
             in
             (case getTugPosition (svc g3) quizId of
                (Inl e, s2) \<Rightarrow> caught e client (g3\<lparr>svc := s2\<rparr>)
              | (Inr finalTugStatus, s2) \<Rightarrow>
                  let lastQuestionIndex =
                        (case currentTimer of None \<Rightarrow> 0 | Some t \<Rightarrow> timer_questionIndex t);
                      g4 = emitGameUpdate pin (quiz_id quiz) (quiz_status quiz)
                             (Some lastQuestionIndex) (g3\<lparr>svc := s2\<rparr>)
                  in
                  (case getResults (svc g4) (quiz_id quiz) userId of
                     (Inl e, s3) \<Rightarrow> (accepted, client, g4\<lparr>svc := s3\<rparr>)
                   | (Inr results, s3) \<Rightarrow>
                       (accepted, client,
                        emit (ToRoom pin) (QuizResults results) (g4\<lparr>svc := s3\<rparr>))))))"

definition handleGetResults ::
  "Gateway \<Rightarrow> Socket \<Rightarrow> string \<Rightarrow> string \<Rightarrow> string \<Rightarrow> Reply \<times> Socket \<times> Gateway" where
  "handleGetResults g client pin quizId userId =
     (if data_role client \<noteq> Some Teacher then reject OnlyTeacherCanGetResults client g
      else
        (case getResults (svc g) quizId userId of
           (Inl e, s1) \<Rightarrow> caught e client (g\<lparr>svc := s1\<rparr>)
         | (Inr results, s1) \<Rightarrow>
             (accepted, client,
              emit (ToClient (socket_id client)) (ResultsEvent results) (g\<lparr>svc := s1\<rparr>))))"

definition handleGetParticipants ::
  "Gateway \<Rightarrow> Socket \<Rightarrow> string \<Rightarrow> string \<Rightarrow> Reply \<times> Socket \<times> Gateway" where
  "handleGetParticipants g client pin userId =
     (if data_role client \<noteq> Some Teacher then reject OnlyTeacherCanGetParticipants client g
      else
        (case getParticipantsByPin (svc g) pin userId of
           Inl e \<Rightarrow> caught e client g
         | Inr (team1, team2) \<Rightarrow>
             (accepted, client,
              emit (ToClient (socket_id client)) (ParticipantsUpdate pin team1 team2) g)))"

section \<open>Example data\<close>

text \<open>
  A small database used to run the operations on concrete inputs: quiz1 (started, created
  by alice, two questions of 30 seconds) with one participant per team, and quiz2
  (created by bob) with one question of its own.
\<close>

definition quiz1 :: Quiz where
  "quiz1 = \<lparr>quiz_id = ''quiz1'', quiz_title = ''Capitals'', quiz_pin = ''123456'',
             quiz_status = STARTED, quiz_creatorId = ''alice''\<rparr>"

definition quiz2 :: Quiz where
  "quiz2 = \<lparr>quiz_id = ''quiz2'', quiz_title = ''Rivers'', quiz_pin = ''654321'',
             quiz_status = CREATED, quiz_creatorId = ''bob''\<rparr>"

definition question1 :: Question where
  "question1 = \<lparr>question_id = ''q1'', question_text = ''France'', question_timeSeconds = 30,
                 question_correctAnswerId = Some ''o1'', question_quizId = ''quiz1'',
                 question_order = 0\<rparr>"

definition question2 :: Question where
  "question2 = \<lparr>question_id = ''q2'', question_text = ''Italy'', question_timeSeconds = 30,
                 question_correctAnswerId = Some ''o5'', question_quizId = ''quiz1'',
                 question_order = 1\<rparr>"

definition question9 :: Question where
  "question9 = \<lparr>question_id = ''q9'', question_text = ''Egypt'', question_timeSeconds = 20,
                 question_correctAnswerId = Some ''o9'', question_quizId = ''quiz2'',
                 question_order = 0\<rparr>"

definition mk_option :: "string \<Rightarrow> int \<Rightarrow> string \<Rightarrow> AnswerOption" where
  "mk_option oid ord qid =
     \<lparr>option_id = oid, option_text = oid, option_order = ord, option_questionId = qid\<rparr>"

definition participant1 :: Participant where
  "participant1 = \<lparr>participant_id = ''p1'', participant_name = ''Ann'',
                    participant_team = TEAM_1, participant_quizId = ''quiz1'',
                    participant_pin = ''123456''\<rparr>"

definition participant2 :: Participant where
  "participant2 = \<lparr>participant_id = ''p2'', participant_name = ''Ben'',
                    participant_team = TEAM_2, participant_quizId = ''quiz1'',
                    participant_pin = ''123456''\<rparr>"

definition state0 :: State where
  "state0 =
     \<lparr>quizzes = [quiz1, quiz2],
      questions = [question1, question2, question9],
      answerOptions =
        [mk_option ''o1'' 1 ''q1'', mk_option ''o2'' 2 ''q1'',
         mk_option ''o3'' 3 ''q1'', mk_option ''o4'' 4 ''q1'',
         mk_option ''o5'' 1 ''q2'', mk_option ''o6'' 2 ''q2'',
         mk_option ''o7'' 3 ''q2'', mk_option ''o8'' 4 ''q2'',
         mk_option ''o9'' 1 ''q9'', mk_option ''o10'' 2 ''q9'',
         mk_option ''o11'' 3 ''q9'', mk_option ''o12'' 4 ''q9''],
      participants = [participant1, participant2],
      answers = [],
      questionTimeCache = Map.empty\<rparr>"

definition mk_dto :: "string \<Rightarrow> string \<Rightarrow> int \<Rightarrow> SubmitAnswerDto" where
  "mk_dto pid oid ms =
     \<lparr>dto_participantId = pid, dto_selectedOptionId = oid, dto_responseTimeMs = ms\<rparr>"

text \<open>An answer as \<open>submitAnswer\<close> stores it.\<close>

definition mk_answer :: "string \<Rightarrow> string \<Rightarrow> string \<Rightarrow> string \<Rightarrow> bool \<Rightarrow> int \<Rightarrow> Answer" where
  "mk_answer aid pid qid oid ok ms =
     \<lparr>answer_id = aid, answer_participantId = pid, answer_questionId = qid,
      answer_selectedOptionId = oid, answer_isCorrect = ok, answer_responseTimeMs = Some ms\<rparr>"

text \<open>A gateway over a given service state with no room, no timer and nothing emitted.\<close>

definition gateway_of :: "State \<Rightarrow> Gateway" where
  "gateway_of s =
     \<lparr>svc = s, pinRooms = (\<lambda>pin. {}), questionStartTimes = Map.empty,
      questionTimers = Map.empty, timeouts = Map.empty, nextTimeoutId = 0,
      clientLastActivity = Map.empty, emitted = []\<rparr>"

text \<open>A connection as \<open>handleConnection\<close> leaves it.\<close>

definition fresh_socket :: "string \<Rightarrow> Socket" where
  "fresh_socket sid =
     \<lparr>socket_id = sid, data_role = None, data_userId = None, data_pin = None,
      data_participantId = None\<rparr>"

text \<open>
  Two moments of quiz1. In \<open>state_behind\<close> team 2 has given one wrong answer after 25
  seconds. \<open>state_ahead\<close> is what \<open>submitAnswer\<close> leaves when participant p1 of team 1 then
  answers question q1 correctly after 5 seconds: the scores are 300 and 50, the position
  is 100 and the quiz is finished; \<open>result_ahead\<close> is what that call returns.
\<close>

definition state_behind :: State where
  "state_behind = state0\<lparr>answers := [mk_answer ''a0'' ''p2'' ''q1'' ''o2'' False 25000]\<rparr>"

definition result_ahead :: SubmitAnswerResult where
  "result_ahead =
     \<lparr>savedAnswer = mk_answer ''u1'' ''p1'' ''q1'' ''o1'' True 5000,
      tugStatus = \<lparr>position = 100, team1Score = 300, team2Score = 50, hasAnswers = True\<rparr>,
      shouldAutoFinish = True, gameFinished = True\<rparr>"

definition state_ahead :: State where
  "state_ahead =
     state0\<lparr>quizzes := [quiz1\<lparr>quiz_status := FINISHED\<rparr>, quiz2],
            answers := [mk_answer ''a0'' ''p2'' ''q1'' ''o2'' False 25000,
                        mk_answer ''u1'' ''p1'' ''q1'' ''o1'' True 5000],
            questionTimeCache := [''quiz1'' \<mapsto> 30]\<rparr>"

text \<open>
  Gateways for the runs. In \<open>gateway_round1\<close> quiz1 is started, teacher alice has joined on
  socket t1 and question 0 was started at time 1000000 (milliseconds), with its timer
  pending under handle 0. In \<open>gateway_stale\<close> the quiz has been finished through the
  service while that timer is still pending.
\<close>

definition teacher_socket :: Socket where
  "teacher_socket =
     \<lparr>socket_id = ''t1'', data_role = Some Teacher, data_userId = Some ''alice'',
      data_pin = Some ''123456'', data_participantId = None\<rparr>"

definition timer0 :: Timer where
  "timer0 = \<lparr>timer_questionIndex = 0, timer_startTime = 1000000, timer_timeSeconds = 30,
             timer_timerId = 0, timer_pin = ''123456''\<rparr>"

definition timeout0 :: Timeout where
  "timeout0 = \<lparr>timeout_delayMs = 33000, timeout_quizId = ''quiz1'', timeout_pin = ''123456'',
               timeout_questionIndex = 0, timeout_userId = ''alice''\<rparr>"

definition gateway_round1 :: Gateway where
  "gateway_round1 =
     (gateway_of state0)
       \<lparr>pinRooms := (\<lambda>pin. {})(''123456'' := {''t1''}),
        questionStartTimes := [''quiz1'' \<mapsto> [0 \<mapsto> 1000000]],
        questionTimers := [''quiz1'' \<mapsto> timer0],
        timeouts := [0 \<mapsto> timeout0],
        nextTimeoutId := 1\<rparr>"

definition gateway_stale :: Gateway where
  "gateway_stale = gateway_round1\<lparr>svc := state_ahead\<rparr>"

text \<open>A join as teacher under quiz1's PIN by mallory, who did not create it.\<close>

definition mallory_join :: JoinData where
  "mallory_join =
     \<lparr>join_pin = ''123456'', join_role = Teacher, join_userId = Some ''mallory'',
      join_participantId = None\<rparr>"

text \<open>
  Two more moments of the service. In \<open>state_unset\<close> question q9 of quiz2 has no correct
  option; in \<open>state_answered9\<close> participant p1 has an answer stored for question q9.
\<close>

definition state_unset :: State where
  "state_unset =
     state0\<lparr>questions := [question1, question2, question9\<lparr>question_correctAnswerId := None\<rparr>]\<rparr>"

definition state_answered9 :: State where
  "state_answered9 = state0\<lparr>answers := [mk_answer ''a9'' ''p1'' ''q9'' ''o9'' True 4000]\<rparr>"

text \<open>
  More gateways over quiz1. \<open>student_socket\<close> is the connection of participant p1 after
  the join as student. In \<open>gateway_round2\<close> question 1 has been started as well, at time
  1033000. In \<open>gateway_epoch\<close> the start time recorded for question 0 is 0. In
  \<open>gateway_zero\<close> question q1 has the time limit 0.
\<close>

definition student_socket :: Socket where
  "student_socket =
     \<lparr>socket_id = ''s2'', data_role = Some Student, data_userId = None,
      data_pin = Some ''123456'', data_participantId = Some ''p1''\<rparr>"

definition gateway_round2 :: Gateway where
  "gateway_round2 =
     gateway_round1\<lparr>questionStartTimes := [''quiz1'' \<mapsto> [0 \<mapsto> 1000000, 1 \<mapsto> 1033000]]\<rparr>"

definition gateway_epoch :: Gateway where
  "gateway_epoch = gateway_round1\<lparr>questionStartTimes := [''quiz1'' \<mapsto> [0 \<mapsto> 0]]\<rparr>"

definition state_zero :: State where
  "state_zero =
     state0\<lparr>questions := [question1\<lparr>question_timeSeconds := 0\<rparr>, question2, question9]\<rparr>"

definition gateway_zero :: Gateway where
  "gateway_zero = gateway_round1\<lparr>svc := state_zero\<rparr>"

section \<open>Score engine\<close>

lemma Math_round_bounds:
  assumes "- 100 \<le> c" and "c \<le> 100"
  shows "- 100 \<le> Math_round (c * 100) / 100" and "Math_round (c * 100) / 100 \<le> 100"
proof -
  have "\<lfloor>c * 100 + 1 / 2\<rfloor> \<le> 10000"
    using assms by (simp add: floor_le_iff)
  then have upper: "real_of_int \<lfloor>c * 100 + 1 / 2\<rfloor> \<le> 10000"
    by linarith
  have "- 10000 \<le> \<lfloor>c * 100 + 1 / 2\<rfloor>"
    using assms by (simp add: le_floor_iff)
  then have lower: "- 10000 \<le> real_of_int \<lfloor>c * 100 + 1 / 2\<rfloor>"
    by linarith
  show "- 100 \<le> Math_round (c * 100) / 100"
    unfolding Math_round_def using lower by simp
  show "Math_round (c * 100) / 100 \<le> 100"
    unfolding Math_round_def using upper by simp
qed

text \<open>The position is 0 or the rounding of a clamped value.\<close>

lemma position_updateTugPosition:
  "position (updateTugPosition t1 t2 has) = 0 \<or>
   (\<exists>raw. position (updateTugPosition t1 t2 has) =
           Math_round (max (- 100) (min 100 raw) * 100) / 100)"
proof (cases "\<not> has \<or> t1 + t2 = 0")
  case True
  then have "position (updateTugPosition t1 t2 has) = 0"
    unfolding updateTugPosition_def Let_def by (simp only: if_True TugStatus.select_convs)
  then show ?thesis by (rule disjI1)
next
  case False
  then have "\<exists>raw. position (updateTugPosition t1 t2 has) =
           Math_round (max (- 100) (min 100 raw) * 100) / 100"
    unfolding updateTugPosition_def Let_def
    by (simp only: if_False TugStatus.select_convs) (rule exI, rule refl)
  then show ?thesis by (rule disjI2)
qed

lemma updateTugPosition_range:
  "- 100 \<le> position (updateTugPosition t1 t2 has) \<and>
   position (updateTugPosition t1 t2 has) \<le> 100"
proof -
  consider "position (updateTugPosition t1 t2 has) = 0"
    | raw where "position (updateTugPosition t1 t2 has) =
                   Math_round (max (- 100) (min 100 raw) * 100) / 100"
    using position_updateTugPosition by blast
  then show ?thesis
  proof cases
    case 1
    then show ?thesis by simp
  next
    case 2
    have "- 100 \<le> max (- 100) (min 100 raw)" and "max (- 100) (min 100 raw) \<le> 100"
      by simp_all
    then show ?thesis
      using Math_round_bounds [of "max (- 100) (min 100 raw)"] 2 by simp
  qed
qed

text \<open>\<open>calculateTugPosition\<close> returns what \<open>updateTugPosition\<close> returns for some scores.\<close>

lemma calculateTugPosition_position:
  "\<exists>t1 t2 has. position (fst (calculateTugPosition s quizId)) =
                position (updateTugPosition t1 t2 has)"
proof (cases "length (filter (\<lambda>p. participant_quizId p = quizId) (participants s)) = 0")
  case True
  have "position (updateTugPosition 0 0 False) = 0"
    by (simp add: updateTugPosition_def)
  moreover from True have "position (fst (calculateTugPosition s quizId)) = 0"
    by (simp add: calculateTugPosition_def)
  ultimately have "position (fst (calculateTugPosition s quizId)) =
      position (updateTugPosition 0 0 False)"
    by simp
  then show ?thesis by blast
next
  case False
  obtain avg s' where g: "getAverageQuestionTime s quizId = (avg, s')"
    by (cases "getAverageQuestionTime s quizId")
  show ?thesis
    using False unfolding calculateTugPosition_def Let_def g
    by (simp only: if_False prod.case fst_conv) blast
qed

text \<open>
  C1. For non-negative team scores and either value of the flag, the position returned by
  \<open>updateTugPosition\<close> lies between -100 and 100, and so does the position that
  \<open>calculateTugPosition\<close> returns for any state of the tables and any quiz.
\<close>

theorem position_in_range:
  assumes "0 \<le> t1" and "0 \<le> t2"
  shows "- 100 \<le> position (updateTugPosition t1 t2 has) \<and>
         position (updateTugPosition t1 t2 has) \<le> 100 \<and>
         - 100 \<le> position (fst (calculateTugPosition s quizId)) \<and>
         position (fst (calculateTugPosition s quizId)) \<le> 100"
proof -
  obtain u1 u2 h where
    "position (fst (calculateTugPosition s quizId)) = position (updateTugPosition u1 u2 h)"
    using calculateTugPosition_position by blast
  then show ?thesis
    using updateTugPosition_range [of t1 t2 has] updateTugPosition_range [of u1 u2 h] by simp
qed

text \<open>
  C6. Team 1 has one answer, correct, given after 5000 ms; team 2 has none; the time limit
  is 30000 ms. The average speed is 25, the scores are 300 and 0, the smaller score is 0
  and the larger positive (the branch that caps the swing), and the position is 75.
\<close>

theorem first_correct_answer:
  assumes "answer_isCorrect a" and "answer_responseTimeMs a = Some 5000"
  shows "calculateAverageSpeed [a] 30000 = 25 \<and>
         calculateTeamScore (calculateCorrectAnswers [a]) (calculateAverageSpeed [a] 30000) = 300 \<and>
         calculateTeamScore (calculateCorrectAnswers []) (calculateAverageSpeed [] 30000) = 0 \<and>
         min (300 :: real) 0 = 0 \<and> max (300 :: real) 0 > 0 \<and>
         updateTugPosition 300 0 True =
           \<lparr>position = 75, team1Score = 300, team2Score = 0, hasAnswers = True\<rparr>"
  using assms
  by (simp add: calculateAverageSpeed_def calculateTeamScore_def calculateCorrectAnswers_def
      responseTimeMs_or_0_def Math_round_def updateTugPosition_def)

section \<open>Quiz service\<close>

lemma find_save_row: "find (\<lambda>x. key x = key r) (save_row key r xs) = Some r"
  by (induction xs) auto

lemma save_row_again: "save_row key r (save_row key r xs) = save_row key r xs"
  by (induction xs) auto

lemma save_row_found: "find (\<lambda>x. key x = key r) xs = Some r \<Longrightarrow> save_row key r xs = xs"
  by (induction xs) (auto split: if_splits)

lemma find_key: "find (\<lambda>x. key x = k) xs = Some r \<Longrightarrow> key r = k"
  by (induction xs) (auto split: if_splits)

lemma getAverageQuestionTime_frame:
  "\<exists>c. snd (getAverageQuestionTime s quizId) = s\<lparr>questionTimeCache := c\<rparr>"
proof -
  have "snd (getAverageQuestionTime s quizId) =
      s\<lparr>questionTimeCache := questionTimeCache (snd (getAverageQuestionTime s quizId))\<rparr>"
    by (simp add: getAverageQuestionTime_def Let_def split: option.splits)
  then show ?thesis by blast
qed

lemma calculateTugPosition_frame:
  "\<exists>c. snd (calculateTugPosition s quizId) = s\<lparr>questionTimeCache := c\<rparr>"
proof (cases "length (filter (\<lambda>p. participant_quizId p = quizId) (participants s)) = 0")
  case True
  then have "snd (calculateTugPosition s quizId) = s\<lparr>questionTimeCache := questionTimeCache s\<rparr>"
    by (simp add: calculateTugPosition_def)
  then show ?thesis by blast
next
  case False
  obtain avg s' where g: "getAverageQuestionTime s quizId = (avg, s')"
    by (cases "getAverageQuestionTime s quizId")
  have "snd (calculateTugPosition s quizId) = s'"
    using False unfolding calculateTugPosition_def Let_def g
    by (simp only: if_False prod.case snd_conv)
  then show ?thesis
    using getAverageQuestionTime_frame [of s quizId] g by simp
qed

lemma calculateTugPosition_tables [simp]:
  "quizzes (snd (calculateTugPosition s quizId)) = quizzes s"
  "questions (snd (calculateTugPosition s quizId)) = questions s"
  "answerOptions (snd (calculateTugPosition s quizId)) = answerOptions s"
  "participants (snd (calculateTugPosition s quizId)) = participants s"
  "answers (snd (calculateTugPosition s quizId)) = answers s"
  using calculateTugPosition_frame [of s quizId] by auto

text \<open>What a successful read phase has established.\<close>

lemma submitAnswer_read_Inr:
  assumes "submitAnswer_read s pin questionId participantId dto = Inr (quiz, answer)"
  shows "findQuizByPin s pin = Some quiz" and "quiz_status quiz = STARTED"
    and "answer_id answer = []"
    and "answer_participantId answer = participantId" and "answer_questionId answer = questionId"
    and "find (\<lambda>a. answer_participantId a = participantId \<and> answer_questionId a = questionId)
           (answers s) = None"
  using assms
  by (auto simp: submitAnswer_read_def Let_def split: option.splits if_splits)

lemma submitAnswer_write_unfold:
  "submitAnswer_write s uuid (quiz, answer) =
     (let saved = (if answer_id answer = [] then answer\<lparr>answer_id := uuid\<rparr> else answer) in
      if (case answer_responseTimeMs saved of None \<Rightarrow> False | Some ms \<Rightarrow> \<not> int4 ms)
      then (Inl (QueryFailedError IntegerOutOfRange), s)
      else
        let s1 = s\<lparr>answers := answers s @ [saved]\<rparr>;
            tug = fst (calculateTugPosition s1 (quiz_id quiz));
            s2 = snd (calculateTugPosition s1 (quiz_id quiz));
            auto = (\<bar>position tug\<bar> \<ge> 100 \<and> hasAnswers tug)
        in (Inr \<lparr>savedAnswer = saved, tugStatus = tug, shouldAutoFinish = auto,
                  gameFinished = auto\<rparr>,
            if auto \<and> quiz_status quiz = STARTED
            then s2\<lparr>quizzes := save_row quiz_id (quiz\<lparr>quiz_status := FINISHED\<rparr>) (quizzes s2)\<rparr>
            else s2))"
  by (simp add: submitAnswer_write_def Let_def split_beta)

text \<open>An insert that the database accepts appends the entity with its new id.\<close>

lemma submitAnswer_write_stored:
  assumes "answer_id answer = []" and "answer_responseTimeMs answer = Some ms" and "int4 ms"
  shows "answers (snd (submitAnswer_write s uuid (quiz, answer))) =
           answers s @ [answer\<lparr>answer_id := uuid\<rparr>]"
    and "\<exists>r. fst (submitAnswer_write s uuid (quiz, answer)) = Inr r \<and>
             savedAnswer r = answer\<lparr>answer_id := uuid\<rparr>"
  using assms unfolding submitAnswer_write_unfold Let_def by simp_all

lemma submitAnswer_write_refused:
  assumes "answer_id answer = []" and "answer_responseTimeMs answer = Some ms" and "\<not> int4 ms"
  shows "submitAnswer_write s uuid (quiz, answer) = (Inl (QueryFailedError IntegerOutOfRange), s)"
  using assms unfolding submitAnswer_write_unfold Let_def by simp

lemma submitAnswer_write_quizzes:
  "quizzes (snd (submitAnswer_write s uuid (quiz, answer))) = quizzes s \<or>
   quizzes (snd (submitAnswer_write s uuid (quiz, answer))) =
     save_row quiz_id (quiz\<lparr>quiz_status := FINISHED\<rparr>) (quizzes s)"
  unfolding submitAnswer_write_unfold Let_def by simp

text \<open>
  C2. A call of \<open>submitAnswer\<close> that succeeds ran on a quiz with status started and returns
  the position recomputed with the new answer. When that position has absolute value at
  least 100 and answers exist, the stored quiz is finished afterwards and the returned
  flags \<open>gameFinished\<close> and \<open>shouldAutoFinish\<close> are set; otherwise both flags are clear and
  the quiz table is as before.
\<close>

theorem submitAnswer_finish:
  assumes "submitAnswer s uuid pin questionId participantId dto = (Inr r, s')"
  shows "\<exists>quiz. findQuizByPin s pin = Some quiz \<and> quiz_status quiz = STARTED \<and>
           tugStatus r =
             fst (calculateTugPosition (s\<lparr>answers := answers s @ [savedAnswer r]\<rparr>) (quiz_id quiz)) \<and>
           (if \<bar>position (tugStatus r)\<bar> \<ge> 100 \<and> hasAnswers (tugStatus r)
            then gameFinished r \<and> shouldAutoFinish r \<and>
                 findQuizById s' (quiz_id quiz) = Some (quiz\<lparr>quiz_status := FINISHED\<rparr>)
            else \<not> gameFinished r \<and> \<not> shouldAutoFinish r \<and> quizzes s' = quizzes s)"
proof -
  from assms obtain quiz answer where
    rd: "submitAnswer_read s pin questionId participantId dto = Inr (quiz, answer)"
    and wr: "submitAnswer_write s uuid (quiz, answer) = (Inr r, s')"
    by (auto simp: submitAnswer_def split: sum.splits prod.splits)
  have q: "findQuizByPin s pin = Some quiz" "quiz_status quiz = STARTED"
    using submitAnswer_read_Inr [OF rd] by simp_all
  have "tugStatus r =
          fst (calculateTugPosition (s\<lparr>answers := answers s @ [savedAnswer r]\<rparr>) (quiz_id quiz))"
    using wr unfolding submitAnswer_write_unfold Let_def by (auto split: if_splits)
  moreover have "if \<bar>position (tugStatus r)\<bar> \<ge> 100 \<and> hasAnswers (tugStatus r)
            then gameFinished r \<and> shouldAutoFinish r \<and>
                 findQuizById s' (quiz_id quiz) = Some (quiz\<lparr>quiz_status := FINISHED\<rparr>)
            else \<not> gameFinished r \<and> \<not> shouldAutoFinish r \<and> quizzes s' = quizzes s"
    using wr q(2) find_save_row [of quiz_id "quiz\<lparr>quiz_status := FINISHED\<rparr>"]
    unfolding submitAnswer_write_unfold Let_def findQuizById_def
    by (auto split: if_splits)
  ultimately show ?thesis using q by blast
qed

lemma list_all2_save_row:
  assumes "find (\<lambda>x. key x = key r) xs = Some x0" and "R x0 r" and "\<And>x. R x x"
  shows "list_all2 R xs (save_row key r xs)"
  using assms(1)
proof (induction xs)
  case Nil
  then show ?case by simp
next
  case (Cons x xs)
  show ?case
  proof (cases "key x = key r")
    case True
    with Cons.prems have "x = x0" by simp
    with True assms(2,3) show ?thesis by (simp add: list_all2_refl)
  next
    case False
    with Cons show ?thesis using assms(3) by simp
  qed
qed

lemma find_by_key_of_member:
  "q \<in> set xs \<Longrightarrow> \<exists>x0. find (\<lambda>x. key x = key q) xs = Some x0 \<and> key x0 = key q"
  by (induction xs) auto

lemma forward_refl: "forward q q"
  by (simp add: forward_def)

lemma startQuiz_forward:
  "list_all2 forward (quizzes s) (quizzes (snd (startQuiz s quizId userId)))"
proof (cases "findQuizById s quizId")
  case None
  then show ?thesis
    by (simp add: startQuiz_def startQuiz_read_def list_all2_refl forward_refl)
next
  case (Some quiz)
  have k: "quiz_id quiz = quizId"
    using Some find_key [of quiz_id quizId "quizzes s" quiz] by (simp add: findQuizById_def)
  show ?thesis
  proof (cases "quiz_creatorId quiz \<noteq> userId \<or> quiz_status quiz \<noteq> CREATED")
    case True
    with Some show ?thesis
      by (auto simp: startQuiz_def startQuiz_read_def list_all2_refl forward_refl)
  next
    case False
    then have st: "quiz_status quiz = CREATED" and cr: "quiz_creatorId quiz = userId" by simp_all
    let ?r = "quiz\<lparr>quiz_status := STARTED\<rparr>"
    have "find (\<lambda>x. quiz_id x = quiz_id ?r) (quizzes s) = Some quiz"
      using Some k by (simp add: findQuizById_def)
    moreover have "forward quiz ?r"
      using st by (simp add: forward_def status_rank_def)
    ultimately have "list_all2 forward (quizzes s) (save_row quiz_id ?r (quizzes s))"
      using list_all2_save_row [of quiz_id ?r "quizzes s" quiz forward] forward_refl by blast
    moreover have "quizzes (snd (startQuiz s quizId userId)) = save_row quiz_id ?r (quizzes s)"
      using Some st cr
      by (simp add: startQuiz_def startQuiz_read_def startQuiz_write_def Let_def
          split: option.splits)
    ultimately show ?thesis by simp
  qed
qed

lemma finishQuiz_forward:
  "list_all2 forward (quizzes s) (quizzes (snd (finishQuiz s quizId userId)))"
proof (cases "findQuizById s quizId")
  case None
  then show ?thesis by (simp add: finishQuiz_def list_all2_refl forward_refl)
next
  case (Some quiz)
  have k: "quiz_id quiz = quizId"
    using Some find_key [of quiz_id quizId "quizzes s" quiz] by (simp add: findQuizById_def)
  show ?thesis
  proof (cases "quiz_creatorId quiz \<noteq> userId")
    case True
    with Some show ?thesis by (simp add: finishQuiz_def list_all2_refl forward_refl)
  next
    case False
    let ?r = "quiz\<lparr>quiz_status := FINISHED\<rparr>"
    have "find (\<lambda>x. quiz_id x = quiz_id ?r) (quizzes s) = Some quiz"
      using Some k by (simp add: findQuizById_def)
    moreover have "forward quiz ?r"
      by (cases "quiz_status quiz") (simp_all add: forward_def status_rank_def)
    ultimately have "list_all2 forward (quizzes s) (save_row quiz_id ?r (quizzes s))"
      using list_all2_save_row [of quiz_id ?r "quizzes s" quiz forward] forward_refl by blast
    moreover have "quizzes (snd (finishQuiz s quizId userId)) = save_row quiz_id ?r (quizzes s)"
      using Some False by (simp add: finishQuiz_def Let_def)
    ultimately show ?thesis by simp
  qed
qed

lemma submitAnswer_forward:
  "list_all2 forward (quizzes s)
     (quizzes (snd (submitAnswer s uuid pin questionId participantId dto)))"
proof (cases "submitAnswer_read s pin questionId participantId dto")
  case (Inl e)
  then show ?thesis by (simp add: submitAnswer_def list_all2_refl forward_refl)
next
  case (Inr loaded)
  obtain quiz answer where l: "loaded = (quiz, answer)" by (cases loaded)
  let ?r = "quiz\<lparr>quiz_status := FINISHED\<rparr>"
  have "findQuizByPin s pin = Some quiz"
    using Inr l submitAnswer_read_Inr(1) by simp
  then have "quiz \<in> set (quizzes s)"
    by (auto simp: findQuizByPin_def find_Some_iff)
  then obtain x0 where x0: "find (\<lambda>x. quiz_id x = quiz_id quiz) (quizzes s) = Some x0"
    "quiz_id x0 = quiz_id quiz"
    using find_by_key_of_member [of quiz "quizzes s" quiz_id] by blast
  have "forward x0 ?r"
    using x0(2) by (cases "quiz_status x0") (simp_all add: forward_def status_rank_def)
  then have "list_all2 forward (quizzes s) (save_row quiz_id ?r (quizzes s))"
    using list_all2_save_row [of quiz_id ?r "quizzes s" x0 forward] x0(1) forward_refl by simp
  moreover have "snd (submitAnswer s uuid pin questionId participantId dto) =
      snd (submitAnswer_write s uuid (quiz, answer))"
    using Inr l by (simp add: submitAnswer_def)
  ultimately show ?thesis
    using submitAnswer_write_quizzes [of s uuid quiz answer]
    by (auto simp: list_all2_refl forward_refl)
qed

text \<open>
  A call that runs alone, from its load to its save with no other call in between, moves
  no status back: the check of \<open>startQuiz\<close> refuses a quiz that is started or finished.
\<close>

lemma calls_alone_move_forward:
  "list_all2 forward (quizzes s) (quizzes (snd (startQuiz s quizId userId))) \<and>
   list_all2 forward (quizzes s) (quizzes (snd (finishQuiz s quizId' userId'))) \<and>
   list_all2 forward (quizzes s)
     (quizzes (snd (submitAnswer s uuid pin questionId participantId dto)))"
  using startQuiz_forward finishQuiz_forward submitAnswer_forward by blast

text \<open>
  C5. For a stored quiz and its creator, \<open>finishQuiz\<close> succeeds whatever the status is,
  returns the quiz with status finished and stores it. A second call returns the same
  result and leaves the same state. On a quiz that is already finished the call returns
  the quiz as it was and leaves the quiz table unchanged.
\<close>

theorem finishQuiz_idempotent:
  assumes "findQuizById s quizId = Some quiz" and "quiz_creatorId quiz = userId"
  shows "fst (finishQuiz s quizId userId) = Inr (quiz\<lparr>quiz_status := FINISHED\<rparr>) \<and>
         findQuizById (snd (finishQuiz s quizId userId)) quizId =
           Some (quiz\<lparr>quiz_status := FINISHED\<rparr>) \<and>
         finishQuiz (snd (finishQuiz s quizId userId)) quizId userId =
           finishQuiz s quizId userId \<and>
         (quiz_status quiz = FINISHED \<longrightarrow>
            fst (finishQuiz s quizId userId) = Inr quiz \<and>
            quizzes (snd (finishQuiz s quizId userId)) = quizzes s)"
proof -
  let ?r = "quiz\<lparr>quiz_status := FINISHED\<rparr>"
  let ?s1 = "s\<lparr>quizzes := save_row quiz_id ?r (quizzes s),
               questionTimeCache := (questionTimeCache s)(quizId := None)\<rparr>"
  have k: "quiz_id quiz = quizId"
    using assms(1) find_key [of quiz_id quizId "quizzes s" quiz] by (simp add: findQuizById_def)
  have run: "finishQuiz s quizId userId = (Inr ?r, ?s1)"
    using assms by (simp add: finishQuiz_def Let_def)
  have found: "findQuizById ?s1 quizId = Some ?r"
    using find_save_row [of quiz_id ?r "quizzes s"] k by (simp add: findQuizById_def)
  have again: "finishQuiz ?s1 quizId userId = (Inr ?r, ?s1)"
    using found assms(2) by (simp add: finishQuiz_def Let_def save_row_again)
  show ?thesis
  proof (cases "quiz_status quiz = FINISHED")
    case True
    then have e: "?r = quiz" by simp
    have "find (\<lambda>x. quiz_id x = quiz_id quiz) (quizzes s) = Some quiz"
      using assms(1) k by (simp add: findQuizById_def)
    then have "save_row quiz_id quiz (quizzes s) = quizzes s"
      by (rule save_row_found)
    then have "quizzes ?s1 = quizzes s" using e by simp
    then show ?thesis
      using run found again True e by simp
  next
    case False
    then show ?thesis
      using run found again by simp
  qed
qed

text \<open>
  C10, as amended. \<open>submitAnswer\<close> does not compare the question's quiz with the quiz of the
  PIN. On a started quiz found by the PIN, for a participant registered under that PIN
  and a stored question of another quiz: a submission that names one of that question's
  options succeeds and appends the answer to the answer table, provided the question has
  its correct option set, no answer of the participant to it is stored and the response
  time fits the 32-bit column.
\<close>

theorem foreign_question_accepted:
  assumes "findQuizByPin s pin = Some quiz" and "quiz_status quiz = STARTED"
    and "find (\<lambda>p. participant_id p = participantId) (participants s) = Some participant"
    and "participant_pin participant = pin"
    and "find (\<lambda>q. question_id q = questionId) (questions s) = Some question"
    and "question_quizId question \<noteq> quiz_id quiz"
    and "find (\<lambda>opt. option_id opt = dto_selectedOptionId dto) (options_of s question) =
           Some selectedOption"
    and "\<not> correctAnswerId_unset question"
    and "find (\<lambda>a. answer_participantId a = participantId \<and> answer_questionId a = questionId)
           (answers s) = None"
    and "int4 (dto_responseTimeMs dto)"
  shows "\<exists>r. fst (submitAnswer s uuid pin questionId participantId dto) = Inr r \<and>
           savedAnswer r =
             \<lparr>answer_id = uuid, answer_participantId = participantId,
              answer_questionId = questionId,
              answer_selectedOptionId = dto_selectedOptionId dto,
              answer_isCorrect =
                (question_correctAnswerId question = Some (dto_selectedOptionId dto)),
              answer_responseTimeMs = Some (dto_responseTimeMs dto)\<rparr> \<and>
           answers (snd (submitAnswer s uuid pin questionId participantId dto)) =
             answers s @ [savedAnswer r]"
proof -
  let ?draft = "\<lparr>answer_id = [], answer_participantId = participantId,
              answer_questionId = questionId,
              answer_selectedOptionId = dto_selectedOptionId dto,
              answer_isCorrect =
                (question_correctAnswerId question = Some (dto_selectedOptionId dto)),
              answer_responseTimeMs = Some (dto_responseTimeMs dto)\<rparr>"
  have rd: "submitAnswer_read s pin questionId participantId dto = Inr (quiz, ?draft)"
    using assms by (simp add: submitAnswer_read_def)
  have run: "submitAnswer s uuid pin questionId participantId dto =
      submitAnswer_write s uuid (quiz, ?draft)"
    by (simp add: submitAnswer_def rd)
  have d: "answer_id ?draft = []" "answer_responseTimeMs ?draft = Some (dto_responseTimeMs dto)"
    by simp_all
  show ?thesis
    unfolding run
    using submitAnswer_write_stored [OF d assms(10), of s uuid quiz] by auto
qed

text \<open>
  A submission for a pair that has its answer stored, made on a started quiz by a
  participant of the PIN and running alone, fails with the duplicate-answer exception and
  leaves the state as it was.
\<close>

lemma duplicate_rejected_alone:
  assumes "findQuizByPin s pin = Some quiz" and "quiz_status quiz = STARTED"
    and "find (\<lambda>q. question_id q = questionId) (questions s) = Some question"
    and "find (\<lambda>p. participant_id p = participantId) (participants s) = Some participant"
    and "participant_pin participant = pin"
    and "find (\<lambda>a. answer_participantId a = participantId \<and> answer_questionId a = questionId)
           (answers s) = Some existingAnswer"
  shows "submitAnswer s uuid pin questionId participantId dto =
           (Inl (BadRequestException AlreadyAnswered), s)"
  using assms by (simp add: submitAnswer_def submitAnswer_read_def)

section \<open>Realtime gateway\<close>

lemma emit_fields [simp]:
  "svc (emit t e g) = svc g" "questionStartTimes (emit t e g) = questionStartTimes g"
  "questionTimers (emit t e g) = questionTimers g" "timeouts (emit t e g) = timeouts g"
  "pinRooms (emit t e g) = pinRooms g" "emitted (emit t e g) = emitted g @ [(t, e)]"
  "nextTimeoutId (emit t e g) = nextTimeoutId g"
  by (simp_all add: emit_def)

lemma clear_delete_fields [simp]:
  "svc (deleteQuestionTimer q (clearQuestionTimer q g)) = svc g"
  "questionStartTimes (deleteQuestionTimer q (clearQuestionTimer q g)) = questionStartTimes g"
  "emitted (deleteQuestionTimer q (clearQuestionTimer q g)) = emitted g"
  "pinRooms (deleteQuestionTimer q (clearQuestionTimer q g)) = pinRooms g"
  "questionTimers (deleteQuestionTimer q (clearQuestionTimer q g)) q = None"
  by (simp_all add: deleteQuestionTimer_def clearQuestionTimer_def split: option.splits)

text \<open>
  C8. When the timer's handler runs and the quiz of the PIN is no longer started, it leaves
  the service state (quiz statuses and answers among it), the question start times and
  the rooms as they were and emits nothing; it only clears and drops the quiz's timer
  entry. The same holds when the runtime fires a pending timer whose PIN is that quiz's.
\<close>

theorem autoAdvance_stale_timer:
  assumes "getQuizByPin (svc g) pin = Inr quiz" and "quiz_status quiz \<noteq> STARTED"
  shows "svc (autoAdvanceQuestion g now quizId pin k userId) = svc g \<and>
         questionStartTimes (autoAdvanceQuestion g now quizId pin k userId) =
           questionStartTimes g \<and>
         pinRooms (autoAdvanceQuestion g now quizId pin k userId) = pinRooms g \<and>
         emitted (autoAdvanceQuestion g now quizId pin k userId) = emitted g \<and>
         questionTimers (autoAdvanceQuestion g now quizId pin k userId) quizId = None \<and>
         (case timeouts g timerId of
            None \<Rightarrow> fireTimeout g now timerId = g
          | Some cb \<Rightarrow>
              if timeout_pin cb = pin
              then svc (fireTimeout g now timerId) = svc g \<and>
                   questionStartTimes (fireTimeout g now timerId) = questionStartTimes g \<and>
                   pinRooms (fireTimeout g now timerId) = pinRooms g \<and>
                   emitted (fireTimeout g now timerId) = emitted g
              else True)"
proof -
  have a: "\<And>g' q i u. svc g' = svc g \<Longrightarrow>
      autoAdvanceQuestion g' now q pin i u = deleteQuestionTimer q (clearQuestionTimer q g')"
    using assms by (simp add: autoAdvanceQuestion_def)
  have "case timeouts g timerId of
            None \<Rightarrow> fireTimeout g now timerId = g
          | Some cb \<Rightarrow>
              if timeout_pin cb = pin
              then svc (fireTimeout g now timerId) = svc g \<and>
                   questionStartTimes (fireTimeout g now timerId) = questionStartTimes g \<and>
                   pinRooms (fireTimeout g now timerId) = pinRooms g \<and>
                   emitted (fireTimeout g now timerId) = emitted g
              else True"
    by (simp add: fireTimeout_def a split: option.splits)
  then show ?thesis
    by (simp add: a)
qed





section \<open>The model on the example data\<close>

text \<open>
  The example rows and states are looked at through their fields only, so that a run of
  an operation on them is a short rewriting.
\<close>

lemma quiz1_fields [simp]:
  "quiz_id quiz1 = ''quiz1''" "quiz_pin quiz1 = ''123456''" "quiz_status quiz1 = STARTED"
  "quiz_creatorId quiz1 = ''alice''" "quiz_title quiz1 = ''Capitals''"
  by (simp_all add: quiz1_def)

lemma quiz2_fields [simp]:
  "quiz_id quiz2 = ''quiz2''" "quiz_pin quiz2 = ''654321''" "quiz_status quiz2 = CREATED"
  "quiz_creatorId quiz2 = ''bob''" "quiz_title quiz2 = ''Rivers''"
  by (simp_all add: quiz2_def)

lemma question1_fields [simp]:
  "question_id question1 = ''q1''" "question_timeSeconds question1 = 30"
  "question_correctAnswerId question1 = Some ''o1''" "question_quizId question1 = ''quiz1''"
  "question_order question1 = 0"
  by (simp_all add: question1_def)

lemma question2_fields [simp]:
  "question_id question2 = ''q2''" "question_timeSeconds question2 = 30"
  "question_correctAnswerId question2 = Some ''o5''" "question_quizId question2 = ''quiz1''"
  "question_order question2 = 1"
  by (simp_all add: question2_def)

lemma question9_fields [simp]:
  "question_id question9 = ''q9''" "question_timeSeconds question9 = 20"
  "question_correctAnswerId question9 = Some ''o9''" "question_quizId question9 = ''quiz2''"
  "question_order question9 = 0"
  by (simp_all add: question9_def)

lemma mk_option_fields [simp]:
  "option_id (mk_option oid ord qid) = oid" "option_questionId (mk_option oid ord qid) = qid"
  "option_order (mk_option oid ord qid) = ord"
  by (simp_all add: mk_option_def)

lemma participant1_fields [simp]:
  "participant_id participant1 = ''p1''" "participant_team participant1 = TEAM_1"
  "participant_quizId participant1 = ''quiz1''" "participant_pin participant1 = ''123456''"
  by (simp_all add: participant1_def)

lemma participant2_fields [simp]:
  "participant_id participant2 = ''p2''" "participant_team participant2 = TEAM_2"
  "participant_quizId participant2 = ''quiz1''" "participant_pin participant2 = ''123456''"
  by (simp_all add: participant2_def)

lemma state0_fields [simp]:
  "quizzes state0 = [quiz1, quiz2]"
  "questions state0 = [question1, question2, question9]"
  "participants state0 = [participant1, participant2]"
  "answers state0 = []"
  "questionTimeCache state0 = Map.empty"
  by (simp_all add: state0_def)

lemma state0_answerOptions:
  "answerOptions state0 =
     [mk_option ''o1'' 1 ''q1'', mk_option ''o2'' 2 ''q1'',
      mk_option ''o3'' 3 ''q1'', mk_option ''o4'' 4 ''q1'',
      mk_option ''o5'' 1 ''q2'', mk_option ''o6'' 2 ''q2'',
      mk_option ''o7'' 3 ''q2'', mk_option ''o8'' 4 ''q2'',
      mk_option ''o9'' 1 ''q9'', mk_option ''o10'' 2 ''q9'',
      mk_option ''o11'' 3 ''q9'', mk_option ''o12'' 4 ''q9'']"
  by (simp add: state0_def)

lemma mk_dto_fields [simp]:
  "dto_participantId (mk_dto pid oid ms) = pid" "dto_selectedOptionId (mk_dto pid oid ms) = oid"
  "dto_responseTimeMs (mk_dto pid oid ms) = ms"
  by (simp_all add: mk_dto_def)

lemma mk_answer_fields [simp]:
  "answer_id (mk_answer aid pid qid oid ok ms) = aid"
  "answer_participantId (mk_answer aid pid qid oid ok ms) = pid"
  "answer_questionId (mk_answer aid pid qid oid ok ms) = qid"
  "answer_selectedOptionId (mk_answer aid pid qid oid ok ms) = oid"
  "answer_isCorrect (mk_answer aid pid qid oid ok ms) = ok"
  "answer_responseTimeMs (mk_answer aid pid qid oid ok ms) = Some ms"
  by (simp_all add: mk_answer_def)

lemma state_behind_fields [simp]:
  "quizzes state_behind = [quiz1, quiz2]"
  "questions state_behind = [question1, question2, question9]"
  "participants state_behind = [participant1, participant2]"
  "answers state_behind = [mk_answer ''a0'' ''p2'' ''q1'' ''o2'' False 25000]"
  "questionTimeCache state_behind = Map.empty"
  "answerOptions state_behind = answerOptions state0"
  by (simp_all add: state_behind_def)

lemma state_ahead_fields [simp]:
  "quizzes state_ahead = [quiz1\<lparr>quiz_status := FINISHED\<rparr>, quiz2]"
  "questions state_ahead = [question1, question2, question9]"
  "participants state_ahead = [participant1, participant2]"
  "answers state_ahead = [mk_answer ''a0'' ''p2'' ''q1'' ''o2'' False 25000,
                          mk_answer ''u1'' ''p1'' ''q1'' ''o1'' True 5000]"
  "questionTimeCache state_ahead = [''quiz1'' \<mapsto> 30]"
  "answerOptions state_ahead = answerOptions state0"
  by (simp_all add: state_ahead_def)

lemma result_ahead_fields [simp]:
  "savedAnswer result_ahead = mk_answer ''u1'' ''p1'' ''q1'' ''o1'' True 5000"
  "tugStatus result_ahead =
     \<lparr>position = 100, team1Score = 300, team2Score = 50, hasAnswers = True\<rparr>"
  "shouldAutoFinish result_ahead" "gameFinished result_ahead"
  by (simp_all add: result_ahead_def)

lemma gateway_of_fields [simp]:
  "svc (gateway_of s) = s" "pinRooms (gateway_of s) = (\<lambda>pin. {})"
  "questionStartTimes (gateway_of s) = Map.empty" "questionTimers (gateway_of s) = Map.empty"
  "timeouts (gateway_of s) = Map.empty" "nextTimeoutId (gateway_of s) = 0"
  "clientLastActivity (gateway_of s) = Map.empty" "emitted (gateway_of s) = []"
  by (simp_all add: gateway_of_def)

lemma fresh_socket_fields [simp]:
  "socket_id (fresh_socket sid) = sid" "data_role (fresh_socket sid) = None"
  "data_userId (fresh_socket sid) = None" "data_pin (fresh_socket sid) = None"
  "data_participantId (fresh_socket sid) = None"
  by (simp_all add: fresh_socket_def)

lemma teacher_socket_fields [simp]:
  "socket_id teacher_socket = ''t1''" "data_role teacher_socket = Some Teacher"
  "data_userId teacher_socket = Some ''alice''" "data_pin teacher_socket = Some ''123456''"
  "data_participantId teacher_socket = None"
  by (simp_all add: teacher_socket_def)

lemma timeout0_fields [simp]:
  "timeout_delayMs timeout0 = 33000" "timeout_quizId timeout0 = ''quiz1''"
  "timeout_pin timeout0 = ''123456''" "timeout_questionIndex timeout0 = 0"
  "timeout_userId timeout0 = ''alice''"
  by (simp_all add: timeout0_def)

lemma timer0_fields [simp]:
  "timer_questionIndex timer0 = 0" "timer_timerId timer0 = 0"
  by (simp_all add: timer0_def)

lemma gateway_round1_fields [simp]:
  "svc gateway_round1 = state0"
  "questionStartTimes gateway_round1 = [''quiz1'' \<mapsto> [0 \<mapsto> 1000000]]"
  "questionTimers gateway_round1 = [''quiz1'' \<mapsto> timer0]"
  "timeouts gateway_round1 = [0 \<mapsto> timeout0]"
  "nextTimeoutId gateway_round1 = 1"
  "emitted gateway_round1 = []"
  by (simp_all add: gateway_round1_def)

lemma gateway_stale_fields [simp]:
  "svc gateway_stale = state_ahead"
  "questionStartTimes gateway_stale = [''quiz1'' \<mapsto> [0 \<mapsto> 1000000]]"
  "questionTimers gateway_stale = [''quiz1'' \<mapsto> timer0]"
  "timeouts gateway_stale = [0 \<mapsto> timeout0]"
  "nextTimeoutId gateway_stale = 1"
  "emitted gateway_stale = []"
  by (simp_all add: gateway_stale_def)

lemma state_unset_fields [simp]:
  "quizzes state_unset = [quiz1, quiz2]"
  "questions state_unset =
     [question1, question2, question9\<lparr>question_correctAnswerId := None\<rparr>]"
  "participants state_unset = [participant1, participant2]"
  "answers state_unset = []"
  "answerOptions state_unset = answerOptions state0"
  by (simp_all add: state_unset_def)

lemma state_answered9_fields [simp]:
  "quizzes state_answered9 = [quiz1, quiz2]"
  "questions state_answered9 = [question1, question2, question9]"
  "participants state_answered9 = [participant1, participant2]"
  "answers state_answered9 = [mk_answer ''a9'' ''p1'' ''q9'' ''o9'' True 4000]"
  "answerOptions state_answered9 = answerOptions state0"
  by (simp_all add: state_answered9_def)

lemma student_socket_fields [simp]:
  "socket_id student_socket = ''s2''" "data_role student_socket = Some Student"
  "data_userId student_socket = None"
  by (simp_all add: student_socket_def)

lemma gateway_round2_fields [simp]:
  "svc gateway_round2 = state0"
  "questionStartTimes gateway_round2 = [''quiz1'' \<mapsto> [0 \<mapsto> 1000000, 1 \<mapsto> 1033000]]"
  "emitted gateway_round2 = []"
  by (simp_all add: gateway_round2_def)

lemma gateway_epoch_fields [simp]:
  "svc gateway_epoch = state0"
  "questionStartTimes gateway_epoch = [''quiz1'' \<mapsto> [0 \<mapsto> 0]]"
  by (simp_all add: gateway_epoch_def)

lemma state_zero_fields [simp]:
  "quizzes state_zero = [quiz1, quiz2]"
  "questions state_zero = [question1\<lparr>question_timeSeconds := 0\<rparr>, question2, question9]"
  by (simp_all add: state_zero_def)

lemma gateway_zero_fields [simp]:
  "svc gateway_zero = state_zero"
  "questionStartTimes gateway_zero = [''quiz1'' \<mapsto> [0 \<mapsto> 1000000]]"
  by (simp_all add: gateway_zero_def)

lemma findQuizByPin_state0 [simp]:
  "quizzes s = [quiz1, quiz2] \<Longrightarrow> findQuizByPin s ''123456'' = Some quiz1"
  "quizzes s = [quiz1, quiz2] \<Longrightarrow> findQuizByPin s ''654321'' = Some quiz2"
  by (simp_all add: findQuizByPin_def)

lemma findQuizById_state0 [simp]:
  "quizzes s = [quiz1, quiz2] \<Longrightarrow> findQuizById s ''quiz1'' = Some quiz1"
  "quizzes s = [quiz1, quiz2] \<Longrightarrow> findQuizById s ''quiz2'' = Some quiz2"
  by (simp_all add: findQuizById_def)

lemma options_of_state0 [simp]:
  "answerOptions s = answerOptions state0 \<Longrightarrow> options_of s question1 =
     [mk_option ''o1'' 1 ''q1'', mk_option ''o2'' 2 ''q1'',
      mk_option ''o3'' 3 ''q1'', mk_option ''o4'' 4 ''q1'']"
  "answerOptions s = answerOptions state0 \<Longrightarrow> options_of s question9 =
     [mk_option ''o9'' 1 ''q9'', mk_option ''o10'' 2 ''q9'',
      mk_option ''o11'' 3 ''q9'', mk_option ''o12'' 4 ''q9'']"
  by (simp_all add: options_of_def state0_answerOptions)

lemma questions_of_quiz1 [simp]:
  "questions s = [question1, question2, question9] \<Longrightarrow> quiz_id q = ''quiz1'' \<Longrightarrow>
   questions_of s q = [question1, question2]"
  by (simp add: questions_of_def)

subsection \<open>Scores and position\<close>

theorem position_in_range_witness:
  "(0 :: real) \<le> 300 \<and> (0 :: real) \<le> 50 \<and>
   - 100 \<le> position (updateTugPosition 300 50 True) \<and>
   position (updateTugPosition 300 50 True) \<le> 100 \<and>
   - 100 \<le> position (fst (calculateTugPosition
       (state0\<lparr>answers := [mk_answer ''a1'' ''p1'' ''q1'' ''o1'' True 5000]\<rparr>) ''quiz1'')) \<and>
   position (fst (calculateTugPosition
       (state0\<lparr>answers := [mk_answer ''a1'' ''p1'' ''q1'' ''o1'' True 5000]\<rparr>) ''quiz1'')) \<le> 100"
proof -
  have "(0 :: real) \<le> 300" and "(0 :: real) \<le> 50"
    by simp_all
  then show ?thesis
    using position_in_range [of 300 50 True
        "state0\<lparr>answers := [mk_answer ''a1'' ''p1'' ''q1'' ''o1'' True 5000]\<rparr>" "''quiz1''"]
    by blast
qed

theorem first_correct_answer_witness:
  "answer_isCorrect (mk_answer ''a1'' ''p1'' ''q1'' ''o1'' True 5000) \<and>
   answer_responseTimeMs (mk_answer ''a1'' ''p1'' ''q1'' ''o1'' True 5000) = Some 5000 \<and>
   calculateAverageSpeed [mk_answer ''a1'' ''p1'' ''q1'' ''o1'' True 5000] 30000 = 25 \<and>
   calculateTeamScore (calculateCorrectAnswers [mk_answer ''a1'' ''p1'' ''q1'' ''o1'' True 5000])
     (calculateAverageSpeed [mk_answer ''a1'' ''p1'' ''q1'' ''o1'' True 5000] 30000) = 300 \<and>
   updateTugPosition 300 0 True =
     \<lparr>position = 75, team1Score = 300, team2Score = 0, hasAnswers = True\<rparr>"
proof -
  have "answer_isCorrect (mk_answer ''a1'' ''p1'' ''q1'' ''o1'' True 5000)"
    and "answer_responseTimeMs (mk_answer ''a1'' ''p1'' ''q1'' ''o1'' True 5000) = Some 5000"
    by simp_all
  then show ?thesis
    using first_correct_answer [of "mk_answer ''a1'' ''p1'' ''q1'' ''o1'' True 5000"] by blast
qed

lemma getAverageQuestionTime_quiz1:
  "questions s = [question1, question2, question9] \<Longrightarrow> questionTimeCache s = Map.empty \<Longrightarrow>
   getAverageQuestionTime s ''quiz1'' = (30, s\<lparr>questionTimeCache := [''quiz1'' \<mapsto> 30]\<rparr>)"
  by (simp add: getAverageQuestionTime_def timeSeconds_or_30_def)

lemma score_fast_correct:
  "calculateTeamScore (calculateCorrectAnswers [mk_answer a p q c True 5000])
     (calculateAverageSpeed [mk_answer a p q c True 5000] 30000) = 300"
  by (simp add: calculateTeamScore_def calculateCorrectAnswers_def calculateAverageSpeed_def
      responseTimeMs_or_0_def Math_round_def)

lemma score_slow_wrong:
  "calculateTeamScore (calculateCorrectAnswers [mk_answer a p q c False 25000])
     (calculateAverageSpeed [mk_answer a p q c False 25000] 30000) = 50"
  by (simp add: calculateTeamScore_def calculateCorrectAnswers_def calculateAverageSpeed_def
      responseTimeMs_or_0_def Math_round_def)

lemma position_300_50:
  "updateTugPosition 300 50 True =
     \<lparr>position = 100, team1Score = 300, team2Score = 50, hasAnswers = True\<rparr>"
  by (simp add: updateTugPosition_def Math_round_def)

lemma calculateTugPosition_two_answers:
  assumes "participants s = [participant1, participant2]"
    and "questions s = [question1, question2, question9]"
    and "questionTimeCache s = Map.empty"
    and "answers s = [mk_answer ''a0'' ''p2'' ''q1'' ''o2'' False 25000,
                      mk_answer ''u1'' ''p1'' ''q1'' ''o1'' True 5000]"
  shows "calculateTugPosition s ''quiz1'' =
     (\<lparr>position = 100, team1Score = 300, team2Score = 50, hasAnswers = True\<rparr>,
      s\<lparr>questionTimeCache := [''quiz1'' \<mapsto> 30]\<rparr>)"
  using assms
  by (simp add: calculateTugPosition_def getAverageQuestionTime_quiz1 score_fast_correct
      score_slow_wrong position_300_50 Let_def)

subsection \<open>Submitting answers\<close>

lemma read_behind:
  "submitAnswer_read state_behind ''123456'' ''q1'' ''p1'' (mk_dto ''p1'' ''o1'' 5000) =
     Inr (quiz1, mk_answer [] ''p1'' ''q1'' ''o1'' True 5000)"
  by (simp add: submitAnswer_read_def correctAnswerId_unset_def mk_answer_def)

lemma state_ahead_eq:
  "state_behind\<lparr>answers := [mk_answer ''a0'' ''p2'' ''q1'' ''o2'' False 25000,
                            mk_answer ''u1'' ''p1'' ''q1'' ''o1'' True 5000],
                questionTimeCache := [''quiz1'' \<mapsto> 30],
                quizzes := [quiz1\<lparr>quiz_status := FINISHED\<rparr>, quiz2]\<rparr> = state_ahead"
  by (simp add: state_ahead_def state_behind_def)

lemma write_behind:
  "submitAnswer_write state_behind ''u1'' (quiz1, mk_answer [] ''p1'' ''q1'' ''o1'' True 5000) =
     (Inr result_ahead, state_ahead)"
proof -
  have a: "(mk_answer [] ''p1'' ''q1'' ''o1'' True 5000)\<lparr>answer_id := ''u1''\<rparr> =
      mk_answer ''u1'' ''p1'' ''q1'' ''o1'' True 5000"
    by (simp add: mk_answer_def)
  have c: "calculateTugPosition
      (state_behind\<lparr>answers := [mk_answer ''a0'' ''p2'' ''q1'' ''o2'' False 25000,
                               mk_answer ''u1'' ''p1'' ''q1'' ''o1'' True 5000]\<rparr>) ''quiz1'' =
     (\<lparr>position = 100, team1Score = 300, team2Score = 50, hasAnswers = True\<rparr>,
      state_behind\<lparr>answers := [mk_answer ''a0'' ''p2'' ''q1'' ''o2'' False 25000,
                               mk_answer ''u1'' ''p1'' ''q1'' ''o1'' True 5000],
                    questionTimeCache := [''quiz1'' \<mapsto> 30]\<rparr>)"
    by (rule calculateTugPosition_two_answers [THEN trans]) simp_all
  show ?thesis
    by (simp add: submitAnswer_write_def int4_def a c Let_def result_ahead_def state_ahead_eq)
qed

lemma run_behind:
  "submitAnswer state_behind ''u1'' ''123456'' ''q1'' ''p1'' (mk_dto ''p1'' ''o1'' 5000) =
     (Inr result_ahead, state_ahead)"
  by (simp add: submitAnswer_def read_behind write_behind)

theorem submitAnswer_finish_witness:
  "submitAnswer state_behind ''u1'' ''123456'' ''q1'' ''p1'' (mk_dto ''p1'' ''o1'' 5000) =
     (Inr result_ahead, state_ahead) \<and>
   findQuizByPin state_behind ''123456'' = Some quiz1 \<and>
   \<bar>position (tugStatus result_ahead)\<bar> \<ge> 100 \<and> hasAnswers (tugStatus result_ahead) \<and>
   gameFinished result_ahead \<and> shouldAutoFinish result_ahead \<and>
   findQuizById state_ahead (quiz_id quiz1) = Some (quiz1\<lparr>quiz_status := FINISHED\<rparr>)"
proof -
  obtain quiz where q: "findQuizByPin state_behind ''123456'' = Some quiz"
    and f: "if \<bar>position (tugStatus result_ahead)\<bar> \<ge> 100 \<and> hasAnswers (tugStatus result_ahead)
            then gameFinished result_ahead \<and> shouldAutoFinish result_ahead \<and>
                 findQuizById state_ahead (quiz_id quiz) = Some (quiz\<lparr>quiz_status := FINISHED\<rparr>)
            else \<not> gameFinished result_ahead \<and> \<not> shouldAutoFinish result_ahead \<and>
                 quizzes state_ahead = quizzes state_behind"
    using submitAnswer_finish [OF run_behind] by blast
  from q have "quiz = quiz1" by simp
  with f q show ?thesis
    using run_behind by simp
qed

theorem finishQuiz_idempotent_witness:
  "findQuizById state_ahead ''quiz1'' = Some (quiz1\<lparr>quiz_status := FINISHED\<rparr>) \<and>
   quiz_creatorId (quiz1\<lparr>quiz_status := FINISHED\<rparr>) = ''alice'' \<and>
   fst (finishQuiz state_ahead ''quiz1'' ''alice'') = Inr (quiz1\<lparr>quiz_status := FINISHED\<rparr>) \<and>
   quizzes (snd (finishQuiz state_ahead ''quiz1'' ''alice'')) = quizzes state_ahead \<and>
   finishQuiz (snd (finishQuiz state_ahead ''quiz1'' ''alice'')) ''quiz1'' ''alice'' =
     finishQuiz state_ahead ''quiz1'' ''alice''"
proof -
  have a: "findQuizById state_ahead ''quiz1'' = Some (quiz1\<lparr>quiz_status := FINISHED\<rparr>)"
    by (simp add: findQuizById_def)
  have b: "quiz_creatorId (quiz1\<lparr>quiz_status := FINISHED\<rparr>) = ''alice''"
    by simp
  show ?thesis
    using finishQuiz_idempotent [OF a b] a b by simp
qed

text \<open>
  C4, on the code. \<open>startQuiz\<close> checks that the quiz is still in status created and
  refuses a quiz that is started or finished, but the check and the write are separated
  by the wait for the database. Bob's \<open>startQuiz\<close> reads quiz2 in status created; before
  it writes, his \<open>finishQuiz\<close> runs and stores quiz2 as finished; the write of \<open>startQuiz\<close>
  then stores the quiz it had read with status started, and returns it. The stored
  status of quiz2 has moved from finished back to started.
\<close>

theorem start_overwrites_finished:
  "startQuiz_read state0 ''quiz2'' ''bob'' = Inr quiz2 \<and>
   quizzes (snd (finishQuiz state0 ''quiz2'' ''bob'')) = [quiz1, quiz2\<lparr>quiz_status := FINISHED\<rparr>] \<and>
   fst (startQuiz_write (snd (finishQuiz state0 ''quiz2'' ''bob'')) quiz2) =
     Inr (quiz2\<lparr>quiz_status := STARTED\<rparr>) \<and>
   quizzes (snd (startQuiz_write (snd (finishQuiz state0 ''quiz2'' ''bob'')) quiz2)) =
     [quiz1, quiz2\<lparr>quiz_status := STARTED\<rparr>] \<and>
   \<not> list_all2 forward (quizzes (snd (finishQuiz state0 ''quiz2'' ''bob'')))
        (quizzes (snd (startQuiz_write (snd (finishQuiz state0 ''quiz2'' ''bob'')) quiz2))) \<and>
   fst (startQuiz (snd (finishQuiz state0 ''quiz2'' ''bob'')) ''quiz2'' ''bob'') =
     Inl (BadRequestException AlreadyStartedOrFinished)"
proof -
  define sf where "sf = snd (finishQuiz state0 ''quiz2'' ''bob'')"
  have rd: "startQuiz_read state0 ''quiz2'' ''bob'' = Inr quiz2"
    by (simp add: startQuiz_read_def)
  have fin: "quizzes sf = [quiz1, quiz2\<lparr>quiz_status := FINISHED\<rparr>]"
    unfolding sf_def by (simp add: finishQuiz_def Let_def)
  have wr: "startQuiz_write sf quiz2 =
      (Inr (quiz2\<lparr>quiz_status := STARTED\<rparr>),
       sf\<lparr>quizzes := [quiz1, quiz2\<lparr>quiz_status := STARTED\<rparr>]\<rparr>)"
    by (simp add: startQuiz_write_def fin findQuizById_def Let_def)
  have bk: "\<not> list_all2 forward [quiz1, quiz2\<lparr>quiz_status := FINISHED\<rparr>]
      [quiz1, quiz2\<lparr>quiz_status := STARTED\<rparr>]"
    by (simp add: forward_def status_rank_def)
  have again: "fst (startQuiz sf ''quiz2'' ''bob'') =
      Inl (BadRequestException AlreadyStartedOrFinished)"
    by (simp add: startQuiz_def startQuiz_read_def fin findQuizById_def)
  show ?thesis
    using rd fin wr bk again unfolding sf_def [symmetric] by simp
qed

theorem foreign_question_accepted_witness:
  "findQuizByPin state0 ''123456'' = Some quiz1 \<and> quiz_status quiz1 = STARTED \<and>
   find (\<lambda>p. participant_id p = ''p1'') (participants state0) = Some participant1 \<and>
   participant_pin participant1 = ''123456'' \<and>
   find (\<lambda>q. question_id q = ''q9'') (questions state0) = Some question9 \<and>
   question_quizId question9 \<noteq> quiz_id quiz1 \<and>
   find (\<lambda>opt. option_id opt = dto_selectedOptionId (mk_dto ''p1'' ''o9'' 4000))
     (options_of state0 question9) = Some (mk_option ''o9'' 1 ''q9'') \<and>
   \<not> correctAnswerId_unset question9 \<and>
   find (\<lambda>a. answer_participantId a = ''p1'' \<and> answer_questionId a = ''q9'') (answers state0) = None \<and>
   int4 (dto_responseTimeMs (mk_dto ''p1'' ''o9'' 4000)) \<and>
   (\<exists>r. fst (submitAnswer state0 ''u1'' ''123456'' ''q9'' ''p1'' (mk_dto ''p1'' ''o9'' 4000)) = Inr r \<and>
        savedAnswer r = mk_answer ''u1'' ''p1'' ''q9'' ''o9'' True 4000 \<and>
        answers (snd (submitAnswer state0 ''u1'' ''123456'' ''q9'' ''p1''
          (mk_dto ''p1'' ''o9'' 4000))) = [savedAnswer r])"
proof -
  have h1: "findQuizByPin state0 ''123456'' = Some quiz1" by simp
  have h2: "quiz_status quiz1 = STARTED" by simp
  have h3: "find (\<lambda>p. participant_id p = ''p1'') (participants state0) = Some participant1"
    by simp
  have h4: "participant_pin participant1 = ''123456''" by simp
  have h5: "find (\<lambda>q. question_id q = ''q9'') (questions state0) = Some question9" by simp
  have h6: "question_quizId question9 \<noteq> quiz_id quiz1" by simp
  have h7: "find (\<lambda>opt. option_id opt = dto_selectedOptionId (mk_dto ''p1'' ''o9'' 4000))
     (options_of state0 question9) = Some (mk_option ''o9'' 1 ''q9'')" by simp
  have h8: "\<not> correctAnswerId_unset question9" by (simp add: correctAnswerId_unset_def)
  have h9: "find (\<lambda>a. answer_participantId a = ''p1'' \<and> answer_questionId a = ''q9'')
      (answers state0) = None" by simp
  have h10: "int4 (dto_responseTimeMs (mk_dto ''p1'' ''o9'' 4000))" by (simp add: int4_def)
  show ?thesis
    using foreign_question_accepted [OF h1 h2 h3 h4 h5 h6 h7 h8 h9 h10, of "''u1''"]
      h1 h2 h3 h4 h5 h6 h7 h8 h9 h10
    by (simp add: mk_answer_def)
qed

text \<open>
  Against C10 as stated. Quiz1 is started, participant p1 is registered under its PIN,
  question q9 belongs to quiz2 and o9 is one of its options, and in each of three runs the
  submission is refused and nothing is stored: where q9 has no correct option, where p1
  already has an answer for q9, and where the response time does not fit the 32-bit column.
\<close>

theorem foreign_question_counterexample:
  "findQuizByPin state0 ''123456'' = Some quiz1 \<and> quiz_status quiz1 = STARTED \<and>
   participant_pin participant1 = ''123456'' \<and> question_quizId question9 \<noteq> quiz_id quiz1 \<and>
   option_questionId (mk_option ''o9'' 1 ''q9'') = question_id question9 \<and>
   submitAnswer state_unset ''u1'' ''123456'' ''q9'' ''p1'' (mk_dto ''p1'' ''o9'' 4000) =
     (Inl (BadRequestException CorrectAnswerNotSet), state_unset) \<and>
   submitAnswer state_answered9 ''u1'' ''123456'' ''q9'' ''p1'' (mk_dto ''p1'' ''o9'' 4000) =
     (Inl (BadRequestException AlreadyAnswered), state_answered9) \<and>
   submitAnswer state0 ''u1'' ''123456'' ''q9'' ''p1'' (mk_dto ''p1'' ''o9'' 3000000000) =
     (Inl (QueryFailedError IntegerOutOfRange), state0)"
proof -
  have unset: "submitAnswer state_unset ''u1'' ''123456'' ''q9'' ''p1'' (mk_dto ''p1'' ''o9'' 4000) =
     (Inl (BadRequestException CorrectAnswerNotSet), state_unset)"
    by (simp add: submitAnswer_def submitAnswer_read_def correctAnswerId_unset_def
        options_of_def state0_answerOptions)
  have twice: "submitAnswer state_answered9 ''u1'' ''123456'' ''q9'' ''p1''
      (mk_dto ''p1'' ''o9'' 4000) = (Inl (BadRequestException AlreadyAnswered), state_answered9)"
    by (simp add: submitAnswer_def submitAnswer_read_def)
  have rd: "submitAnswer_read state0 ''123456'' ''q9'' ''p1'' (mk_dto ''p1'' ''o9'' 3000000000) =
     Inr (quiz1, mk_answer [] ''p1'' ''q9'' ''o9'' True 3000000000)"
    by (simp add: submitAnswer_read_def correctAnswerId_unset_def mk_answer_def)
  have wide: "submitAnswer state0 ''u1'' ''123456'' ''q9'' ''p1'' (mk_dto ''p1'' ''o9'' 3000000000) =
     (Inl (QueryFailedError IntegerOutOfRange), state0)"
    unfolding submitAnswer_def rd
    by (simp add: submitAnswer_write_refused [where ms = 3000000000] int4_def)
  show ?thesis
    using unset twice wide by simp
qed

text \<open>
  C3, on the code. Alone, a second submission for a pair that has an answer is refused
  and stores nothing: on \<open>state_behind\<close>, where participant p2 has answered question q1,
  p2's next submission for q1 fails with the bad-request exception. But the check and the
  insert are separated by the waits for the database, and the table has no key on the
  pair: two submissions of participant p1 for question q1 both pass the read part on
  \<open>state0\<close>, where no answer is stored; the two write parts then run one after the other,
  both return their answer, and two answers for the pair are stored.
\<close>

theorem concurrent_duplicate_answers:
  "submitAnswer state_behind ''u2'' ''123456'' ''q1'' ''p2'' (mk_dto ''p2'' ''o1'' 9000) =
     (Inl (BadRequestException AlreadyAnswered), state_behind) \<and>
   submitAnswer_read state0 ''123456'' ''q1'' ''p1'' (mk_dto ''p1'' ''o1'' 5000) =
     Inr (quiz1, mk_answer [] ''p1'' ''q1'' ''o1'' True 5000) \<and>
   map_sum id savedAnswer
     (fst (submitAnswer_write state0 ''u1'' (quiz1, mk_answer [] ''p1'' ''q1'' ''o1'' True 5000))) =
     Inr (mk_answer ''u1'' ''p1'' ''q1'' ''o1'' True 5000) \<and>
   map_sum id savedAnswer
     (fst (submitAnswer_write
        (snd (submitAnswer_write state0 ''u1'' (quiz1, mk_answer [] ''p1'' ''q1'' ''o1'' True 5000)))
        ''u2'' (quiz1, mk_answer [] ''p1'' ''q1'' ''o1'' True 5000))) =
     Inr (mk_answer ''u2'' ''p1'' ''q1'' ''o1'' True 5000) \<and>
   answers (snd (submitAnswer_write
       (snd (submitAnswer_write state0 ''u1'' (quiz1, mk_answer [] ''p1'' ''q1'' ''o1'' True 5000)))
       ''u2'' (quiz1, mk_answer [] ''p1'' ''q1'' ''o1'' True 5000))) =
     [mk_answer ''u1'' ''p1'' ''q1'' ''o1'' True 5000,
      mk_answer ''u2'' ''p1'' ''q1'' ''o1'' True 5000]"
proof -
  define draft where "draft = mk_answer [] ''p1'' ''q1'' ''o1'' True 5000"
  define s1 where "s1 = snd (submitAnswer_write state0 ''u1'' (quiz1, draft))"
  have d: "answer_id draft = []" "answer_responseTimeMs draft = Some 5000" "int4 5000"
    by (simp_all add: draft_def int4_def)
  have u: "draft\<lparr>answer_id := ''u1''\<rparr> = mk_answer ''u1'' ''p1'' ''q1'' ''o1'' True 5000"
    "draft\<lparr>answer_id := ''u2''\<rparr> = mk_answer ''u2'' ''p1'' ''q1'' ''o1'' True 5000"
    by (simp_all add: draft_def mk_answer_def)
  have alone: "submitAnswer state_behind ''u2'' ''123456'' ''q1'' ''p2'' (mk_dto ''p2'' ''o1'' 9000) =
     (Inl (BadRequestException AlreadyAnswered), state_behind)"
    by (rule duplicate_rejected_alone [where quiz = quiz1 and question = question1
          and participant = participant2
          and existingAnswer = "mk_answer ''a0'' ''p2'' ''q1'' ''o2'' False 25000"]) simp_all
  have rd: "submitAnswer_read state0 ''123456'' ''q1'' ''p1'' (mk_dto ''p1'' ''o1'' 5000) =
     Inr (quiz1, draft)"
    by (simp add: submitAnswer_read_def correctAnswerId_unset_def mk_answer_def draft_def)
  have w1: "answers s1 = [mk_answer ''u1'' ''p1'' ''q1'' ''o1'' True 5000]"
    "map_sum id savedAnswer (fst (submitAnswer_write state0 ''u1'' (quiz1, draft))) =
       Inr (mk_answer ''u1'' ''p1'' ''q1'' ''o1'' True 5000)"
    using submitAnswer_write_stored [OF d, of state0 "''u1''" quiz1]
    unfolding s1_def by (auto simp add: u)
  have w2: "answers (snd (submitAnswer_write s1 ''u2'' (quiz1, draft))) =
       [mk_answer ''u1'' ''p1'' ''q1'' ''o1'' True 5000,
        mk_answer ''u2'' ''p1'' ''q1'' ''o1'' True 5000]"
    "map_sum id savedAnswer (fst (submitAnswer_write s1 ''u2'' (quiz1, draft))) =
       Inr (mk_answer ''u2'' ''p1'' ''q1'' ''o1'' True 5000)"
    using submitAnswer_write_stored [OF d, of s1 "''u2''" quiz1]
    by (auto simp add: u w1)
  show ?thesis
    using alone rd w1 w2 unfolding s1_def draft_def by simp
qed

subsection \<open>Timers and connections\<close>

theorem autoAdvance_stale_timer_witness:
  "getQuizByPin (svc gateway_stale) ''123456'' = Inr (quiz1\<lparr>quiz_status := FINISHED\<rparr>) \<and>
   quiz_status (quiz1\<lparr>quiz_status := FINISHED\<rparr>) \<noteq> STARTED \<and>
   timeouts gateway_stale 0 = Some timeout0 \<and> timeout_pin timeout0 = ''123456'' \<and>
   svc (fireTimeout gateway_stale 1033000 0) = state_ahead \<and>
   questionStartTimes (fireTimeout gateway_stale 1033000 0) = [''quiz1'' \<mapsto> [0 \<mapsto> 1000000]] \<and>
   emitted (fireTimeout gateway_stale 1033000 0) = [] \<and>
   emitted (autoAdvanceQuestion gateway_stale 1033000 ''quiz1'' ''123456'' 0 ''alice'') = []"
proof -
  have h1: "getQuizByPin (svc gateway_stale) ''123456'' = Inr (quiz1\<lparr>quiz_status := FINISHED\<rparr>)"
    by (simp add: getQuizByPin_def findQuizByPin_def)
  have h2: "quiz_status (quiz1\<lparr>quiz_status := FINISHED\<rparr>) \<noteq> STARTED"
    by simp
  have t: "timeouts gateway_stale 0 = Some timeout0" "timeout_pin timeout0 = ''123456''"
    by simp_all
  show ?thesis
    using autoAdvance_stale_timer [OF h1 h2, of 1033000 "''quiz1''" 0 "''alice''" 0] h1 h2 t
    by simp
qed



text \<open>
  C9, on the code. Mallory, who did not create quiz1, joins as teacher on a fresh
  connection: the reply is a failure and the error goes to her socket, but the
  connection has entered the room and is tagged teacher. Her \<open>finish-question\<close> then passes
  the role check: the reply is a success and \<open>question-finished\<close> goes to the whole room.
  A join as teacher that gives no user id is not rejected at all.
\<close>

theorem rejected_teacher_join_keeps_role:
  "(case handleJoinQuiz (gateway_of state0) 1000 (fresh_socket ''s9'') mallory_join of
      (reply, client, g) \<Rightarrow>
        reply = \<lparr>success = False, reply_error = Some WrongAccessRights\<rparr> \<and>
        emitted g = [(ToClient ''s9'', ErrorEvent NotCreatorOfThisGame)] \<and>
        data_role client = Some Teacher \<and> ''s9'' \<in> pinRooms g ''123456'' \<and>
        (case handleFinishQuestion g 2000 client ''123456'' ''q1'' of
           (reply2, client2, g2) \<Rightarrow>
             reply2 = accepted \<and>
             emitted g2 = emitted g @ [(ToRoom ''123456'', QuestionFinished ''q1'' 2000)])) \<and>
   (case handleJoinQuiz (gateway_of state0) 1000 (fresh_socket ''s9'')
           (mallory_join\<lparr>join_userId := None\<rparr>) of
      (reply, client, g) \<Rightarrow> success reply \<and> data_role client = Some Teacher)"
proof -
  define g1 where "g1 = emit (ToClient ''s9'') (ErrorEvent NotCreatorOfThisGame)
     ((gateway_of state0)
       \<lparr>pinRooms := (pinRooms (gateway_of state0))
           (''123456'' := insert ''s9'' (pinRooms (gateway_of state0) ''123456'')),
        clientLastActivity := (clientLastActivity (gateway_of state0))(''s9'' \<mapsto> 1000)\<rparr>)"
  define c1 where "c1 = (fresh_socket ''s9'')\<lparr>data_pin := Some ''123456'',
       data_role := Some Teacher, data_userId := Some ''mallory'', data_participantId := None\<rparr>"
  have j: "handleJoinQuiz (gateway_of state0) 1000 (fresh_socket ''s9'') mallory_join =
      (\<lparr>success = False, reply_error = Some WrongAccessRights\<rparr>, c1, g1)"
    unfolding g1_def c1_def
    by (simp add: handleJoinQuiz_def mallory_join_def getQuizByPin_def truthy_def Let_def)
  have g1: "emitted g1 = [(ToClient ''s9'', ErrorEvent NotCreatorOfThisGame)]"
    "''s9'' \<in> pinRooms g1 ''123456''" "svc g1 = state0" "questionTimers g1 = Map.empty"
    unfolding g1_def by simp_all
  have c1: "data_role c1 = Some Teacher" "socket_id c1 = ''s9''"
    unfolding c1_def by simp_all
  have f: "handleFinishQuestion g1 2000 c1 ''123456'' ''q1'' =
      (accepted, c1, emit (ToRoom ''123456'') (QuestionFinished ''q1'' 2000) g1)"
    using g1 c1 by (simp add: handleFinishQuestion_def getQuizByPin_def Let_def)
  obtain tug s' where t: "getTugPosition state0 (quiz_id quiz1) = (Inr tug, s')"
    by (cases "calculateTugPosition state0 ''quiz1''") (simp add: getTugPosition_def)
  have n: "\<exists>g. handleJoinQuiz (gateway_of state0) 1000 (fresh_socket ''s9'')
           (mallory_join\<lparr>join_userId := None\<rparr>) = (accepted, c1\<lparr>data_userId := None\<rparr>, g)"
    unfolding c1_def using t
    by (simp add: handleJoinQuiz_def mallory_join_def getQuizByPin_def truthy_def Let_def)
  then obtain g where n': "handleJoinQuiz (gateway_of state0) 1000 (fresh_socket ''s9'')
           (mallory_join\<lparr>join_userId := None\<rparr>) = (accepted, c1\<lparr>data_userId := None\<rparr>, g)"
    by blast
  show ?thesis
    unfolding j n' using f g1 c1 by (simp add: accepted_def)
qed

end
